theory Spec2Isabelle
  imports Main
begin

section \<open>Rate limiter\<close>

text \<open>
  Both action modules (\<^verbatim>\<open>auth-actions.ts\<close> and the poll actions) declare the same
  module-level table and the same function:
  \<^verbatim>\<open>const rateLimit = new Map<string, { count: number; lastReset: number }>();\<close>
  The table is a partial map from keys to entries; \<^verbatim>\<open>Date.now()\<close> is an integer number
  of milliseconds and is passed in as \<open>now\<close>. The function returns its boolean together
  with the table after the call.
\<close>

record rl_entry =
  count :: int
  lastReset :: int

type_synonym rl_table = "string \<rightharpoonup> rl_entry"

definition MAX_ATTEMPTS :: int where
  "MAX_ATTEMPTS = 5"

definition RESET_INTERVAL :: int where
  "RESET_INTERVAL = 60 * 1000"

definition checkRateLimit :: "int \<Rightarrow> string \<Rightarrow> rl_table \<Rightarrow> bool \<times> rl_table" where
  "checkRateLimit now key rateLimit =
     (if rateLimit key = None \<or> now - lastReset (the (rateLimit key)) > RESET_INTERVAL
      then (True, rateLimit(key \<mapsto> \<lparr>count = 1, lastReset = now\<rparr>))
      else
        let entry = the (rateLimit key) in
        if count entry \<ge> MAX_ATTEMPTS then (False, rateLimit)
        else (True, rateLimit(key \<mapsto> entry\<lparr>count := count entry + 1\<rparr>)))"

text \<open>
  A sequence of calls, each with its clock reading and its key, run one after the other
  on the table; the result lists each call's key with the boolean it returned.
\<close>

fun checkRateLimit_calls :: "(int \<times> string) list \<Rightarrow> rl_table \<Rightarrow> (string \<times> bool) list \<times> rl_table" where
  "checkRateLimit_calls [] rateLimit = ([], rateLimit)"
| "checkRateLimit_calls ((now, key) # cs) rateLimit =
     (let (ok, rateLimit') = checkRateLimit now key rateLimit;
          (oks, rateLimit'') = checkRateLimit_calls cs rateLimit'
      in ((key, ok) # oks, rateLimit''))"

definition results_for :: "string \<Rightarrow> (string \<times> bool) list \<Rightarrow> bool list" where
  "results_for key oks = map snd (filter (\<lambda>r. fst r = key) oks)"

definition times_for :: "string \<Rightarrow> (int \<times> string) list \<Rightarrow> int list" where
  "times_for key cs = map fst (filter (\<lambda>c. snd c = key) cs)"

text \<open>The window of \<open>key\<close> is closed at \<open>now\<close>: the next call under \<open>key\<close> resets.\<close>

definition window_closed :: "int \<Rightarrow> string \<Rightarrow> rl_table \<Rightarrow> bool" where
  "window_closed now key rateLimit =
     (case rateLimit key of None \<Rightarrow> True | Some entry \<Rightarrow> now - lastReset entry > RESET_INTERVAL)"

text \<open>What one call does to the entry of its own key (used in proofs only).\<close>

definition entry_step :: "int \<Rightarrow> rl_entry option \<Rightarrow> bool \<times> rl_entry option" where
  "entry_step now e =
     (case e of
        None \<Rightarrow> (True, Some \<lparr>count = 1, lastReset = now\<rparr>)
      | Some entry \<Rightarrow>
          if now - lastReset entry > RESET_INTERVAL then (True, Some \<lparr>count = 1, lastReset = now\<rparr>)
          else if count entry \<ge> MAX_ATTEMPTS then (False, Some entry)
          else (True, Some (entry\<lparr>count := count entry + 1\<rparr>)))"

fun entry_steps :: "int list \<Rightarrow> rl_entry option \<Rightarrow> bool list" where
  "entry_steps [] e = []"
| "entry_steps (now # ts) e = fst (entry_step now e) # entry_steps ts (snd (entry_step now e))"

definition count_ok :: "rl_table \<Rightarrow> bool" where
  "count_ok rateLimit = (\<forall>key entry. rateLimit key = Some entry \<longrightarrow> 1 \<le> count entry \<and> count entry \<le> MAX_ATTEMPTS)"

section \<open>Validation schemas\<close>

text \<open>
  The actions validate their input with schemas of the validation library (zod), which
  is not part of the repository. A failed parse yields a list of issues, each with the
  path of the offending value inside the input (empty for the input as a whole) and a
  message. The schemas below are written out from their declarations in the source;
  the messages are the ones given there, and the library's default message where the
  source gives none. Issues come in the order of the schema's fields and checks.

  A JavaScript string is modelled as a \<^typ>\<open>string\<close> whose elements stand for the
  code units that \<^verbatim>\<open>.length\<close> counts.
\<close>

datatype path_elem = Key string | Index nat

datatype issue = Issue (issue_path: "path_elem list") (issue_message: string)

definition check :: "bool \<Rightarrow> path_elem list \<Rightarrow> string \<Rightarrow> issue list" where
  "check ok path msg = (if ok then [] else [Issue path msg])"

text \<open>
  \<^verbatim>\<open>error.flatten()\<close> sorts the messages of the issues: those of issues with an empty
  path go to \<open>formErrors\<close>, the others to \<open>fieldErrors\<close> under the first element of
  their path.
\<close>

record flattened =
  formErrors :: "string list"
  fieldErrors :: "(path_elem \<times> string) list"

definition flatten :: "issue list \<Rightarrow> flattened" where
  "flatten issues =
     \<lparr>formErrors = map issue_message (filter (\<lambda>i. issue_path i = []) issues),
      fieldErrors = map (\<lambda>i. (hd (issue_path i), issue_message i)) (filter (\<lambda>i. issue_path i \<noteq> []) issues)\<rparr>"

text \<open>
  The value of the \<open>error\<close> field of a returned object: \<^verbatim>\<open>null\<close>, a string, or
  \<^verbatim>\<open>undefined\<close>, which is what indexing an array out of range gives.
\<close>

datatype js_error = Null | Undefined | Message string

definition first_of :: "string list \<Rightarrow> js_error" where
  "first_of xs = (case xs of [] \<Rightarrow> Undefined | m # _ \<Rightarrow> Message m)"

text \<open>
  The library's tests for the format of an e-mail address and of a UUID are regular
  expressions of the library; they are parameters of the model.
\<close>

record validators =
  is_email :: "string \<Rightarrow> bool"
  is_uuid :: "string \<Rightarrow> bool"

record LoginFormData =
  email :: string
  password :: string

record RegisterFormData = LoginFormData +
  name :: string

definition loginSchema_safeParse :: "validators \<Rightarrow> LoginFormData \<Rightarrow> issue list + LoginFormData" where
  "loginSchema_safeParse V data =
     (let issues =
        check (is_email V (email data)) [Key ''email''] ''Invalid email address'' @
        check (length (password data) \<ge> 6) [Key ''password''] ''Password must be at least 6 characters long''
      in if issues = [] then Inr data else Inl issues)"

definition registerSchema_safeParse :: "validators \<Rightarrow> RegisterFormData \<Rightarrow> issue list + RegisterFormData" where
  "registerSchema_safeParse V data =
     (let issues =
        check (length (name data) \<ge> 2) [Key ''name''] ''Name must be at least 2 characters long'' @
        check (is_email V (email data)) [Key ''email''] ''Invalid email address'' @
        check (length (password data) \<ge> 6) [Key ''password''] ''Password must be at least 6 characters long''
      in if issues = [] then Inr data else Inl issues)"

text \<open>
  Form data: an ordered list of named entries, each a string or a file.
  \<^verbatim>\<open>get\<close> gives the first entry of a name or \<^verbatim>\<open>null\<close>, \<^verbatim>\<open>getAll\<close> all of them;
  \<^verbatim>\<open>filter(Boolean)\<close> drops the empty strings.
\<close>

datatype form_value = Text string | File

type_synonym FormData = "(string \<times> form_value) list"

definition formData_get :: "FormData \<Rightarrow> string \<Rightarrow> form_value option" where
  "formData_get formData n = map_of formData n"

definition formData_getAll :: "FormData \<Rightarrow> string \<Rightarrow> form_value list" where
  "formData_getAll formData n = map snd (filter (\<lambda>e. fst e = n) formData)"

fun truthy :: "form_value \<Rightarrow> bool" where
  "truthy (Text s) = (s \<noteq> [])"
| "truthy File = True"

definition is_space :: "char \<Rightarrow> bool" where
  "is_space c = (c \<in> set [CHR 0x09, CHR 0x0A, CHR 0x0B, CHR 0x0C, CHR 0x0D, CHR 0x20, CHR 0xA0])"

definition trim :: "string \<Rightarrow> string" where
  "trim s = rev (dropWhile is_space (rev (dropWhile is_space s)))"

fun text_of :: "form_value \<Rightarrow> string" where
  "text_of (Text s) = s"
| "text_of File = []"

definition question_issues :: "form_value option \<Rightarrow> issue list" where
  "question_issues q =
     (case q of
        None \<Rightarrow> [Issue [Key ''question''] ''Expected string, received null'']
      | Some File \<Rightarrow> [Issue [Key ''question''] ''Expected string, received object'']
      | Some (Text s) \<Rightarrow>
          check (length s \<ge> 5) [Key ''question''] ''Question must be at least 5 characters long'' @
          check (length s \<le> 255) [Key ''question''] ''Question cannot exceed 255 characters'')"

definition option_issues :: "nat \<Rightarrow> form_value \<Rightarrow> issue list" where
  "option_issues i v =
     (case v of
        File \<Rightarrow> [Issue [Key ''options'', Index i] ''Expected string, received object'']
      | Text s \<Rightarrow>
          check (length s \<ge> 1) [Key ''options'', Index i] ''Option cannot be empty'' @
          check (length s \<le> 100) [Key ''options'', Index i] ''Option cannot exceed 100 characters'')"

definition options_issues :: "form_value list \<Rightarrow> issue list" where
  "options_issues vs =
     check (length vs \<ge> 2) [Key ''options''] ''Please provide at least two options'' @
     concat (map (\<lambda>(i, v). option_issues i v) (enumerate 0 vs))"

record poll_input =
  input_question :: string
  input_options :: "string list"

text \<open>
  \<^verbatim>\<open>pollSchema.parse\<close>: \<open>Inl\<close> is the error it throws. The length checks come before
  \<^verbatim>\<open>trim()\<close> in the schema and so see the untrimmed strings.
\<close>

definition pollSchema_parse :: "form_value option \<Rightarrow> form_value list \<Rightarrow> issue list + poll_input" where
  "pollSchema_parse q vs =
     (let issues = question_issues q @ options_issues vs
      in if issues = []
         then Inr \<lparr>input_question = trim (case q of Some v \<Rightarrow> text_of v | None \<Rightarrow> []),
                   input_options = map (\<lambda>v. trim (text_of v)) vs\<rparr>
         else Inl issues)"

text \<open>
  A JavaScript number is an integer or not (a fraction, \<^verbatim>\<open>NaN\<close> or an infinity, all
  of which the schema's \<^verbatim>\<open>z.number().int()\<close> refuses).
\<close>

datatype js_number = Integer int | NonInteger

definition voteSchema_safeParse :: "validators \<Rightarrow> string \<Rightarrow> js_number \<Rightarrow> issue list + (string \<times> int)" where
  "voteSchema_safeParse V pollId optionIndex =
     (case optionIndex of
        NonInteger \<Rightarrow>
          Inl (check (is_uuid V pollId) [Key ''pollId''] ''Invalid poll ID format'' @
               [Issue [Key ''optionIndex''] ''Expected integer, received float''])
      | Integer n \<Rightarrow>
          (let issues =
             check (is_uuid V pollId) [Key ''pollId''] ''Invalid poll ID format'' @
             check (n \<ge> 0) [Key ''optionIndex''] ''Option index cannot be negative''
           in if issues = [] then Inr (pollId, n) else Inl issues))"

definition idSchema_safeParse :: "validators \<Rightarrow> string \<Rightarrow> issue list + string" where
  "idSchema_safeParse V ident =
     (let issues = check (is_uuid V ident) [] ''Invalid ID format''
      in if issues = [] then Inr ident else Inl issues)"

section \<open>Backend store and server state\<close>

text \<open>
  The hosted backend is an external collaborator. Its two tables are modelled as lists
  of rows. A table call carries the list of its \<^verbatim>\<open>.eq(column, value)\<close> filters and
  acts on the rows that match all of them; every call can fail with an error the
  backend reports, given by \<open>fault\<close>. \<^verbatim>\<open>.single()\<close> gives the row when exactly one row
  matches and the error \<^verbatim>\<open>PGRST116\<close> otherwise. Of the authentication service only
  the current user and the reported errors are modelled, not its accounts.

  Every step an action takes is appended to \<open>trace\<close>: calls of the rate limiter, schema
  validations, calls of the authentication service (\<open>Backend\<close>), table calls with
  their filters (\<open>Query\<close>), \<^verbatim>\<open>console.error\<close> and \<^verbatim>\<open>revalidatePath\<close>.
\<close>

record backend_error =
  code :: string
  message :: string

datatype op =
    AuthGetUser | AuthSignIn | AuthSignUp | AuthSignOut
  | PollsSelect | PollsInsert | PollsUpdate | PollsDelete
  | VotesSelect | VotesInsert

datatype schema = LoginSchema | RegisterSchema | PollSchema | VoteSchema | IdSchema

datatype column = Col_id | Col_user_id | Col_poll_id

type_synonym filters = "(column \<times> string) list"

datatype event =
    RateLimit string bool
  | Validate schema bool
  | Backend op
  | Query op filters
  | ConsoleError string "backend_error option"
  | Revalidate string

record poll =
  poll_id :: string
  poll_user_id :: string
  poll_question :: string
  poll_options :: "string list"

record vote =
  vote_id :: string
  vote_poll_id :: string
  vote_user_id :: "string option"
  vote_option_index :: int

record server =
  auth_rateLimit :: rl_table
  poll_rateLimit :: rl_table
  polls :: "poll list"
  votes :: "vote list"
  session_user :: "string option"
  fault :: "op \<Rightarrow> backend_error option"
  new_id :: "nat \<Rightarrow> string"
  inserted :: nat
  trace :: "event list"

text \<open>
  \<^verbatim>\<open>.eq(column, value)\<close> on a row of either table. The polls table has the columns
  \<^verbatim>\<open>id\<close> and \<^verbatim>\<open>user_id\<close>, the votes table \<^verbatim>\<open>id\<close>, \<^verbatim>\<open>poll_id\<close> and
  \<^verbatim>\<open>user_id\<close>; the actions filter on no other column.
\<close>

fun poll_eq :: "column \<Rightarrow> string \<Rightarrow> poll \<Rightarrow> bool" where
  "poll_eq Col_id v p = (poll_id p = v)"
| "poll_eq Col_user_id v p = (poll_user_id p = v)"
| "poll_eq Col_poll_id v p = False"

fun vote_eq :: "column \<Rightarrow> string \<Rightarrow> vote \<Rightarrow> bool" where
  "vote_eq Col_id x v = (vote_id v = x)"
| "vote_eq Col_user_id x v = (vote_user_id v = Some x)"
| "vote_eq Col_poll_id x v = (vote_poll_id v = x)"

definition poll_where :: "filters \<Rightarrow> poll \<Rightarrow> bool" where
  "poll_where fs p = list_all (\<lambda>f. poll_eq (fst f) (snd f) p) fs"

definition vote_where :: "filters \<Rightarrow> vote \<Rightarrow> bool" where
  "vote_where fs v = list_all (\<lambda>f. vote_eq (fst f) (snd f) v) fs"

definition emit :: "event \<Rightarrow> server \<Rightarrow> server" where
  "emit e s = s\<lparr>trace := trace s @ [e]\<rparr>"

definition auth_gate :: "int \<Rightarrow> string \<Rightarrow> server \<Rightarrow> bool \<times> server" where
  "auth_gate now key s =
     (fst (checkRateLimit now key (auth_rateLimit s)),
      emit (RateLimit key (fst (checkRateLimit now key (auth_rateLimit s))))
        (s\<lparr>auth_rateLimit := snd (checkRateLimit now key (auth_rateLimit s))\<rparr>))"

definition poll_gate :: "int \<Rightarrow> string \<Rightarrow> server \<Rightarrow> bool \<times> server" where
  "poll_gate now key s =
     (fst (checkRateLimit now key (poll_rateLimit s)),
      emit (RateLimit key (fst (checkRateLimit now key (poll_rateLimit s))))
        (s\<lparr>poll_rateLimit := snd (checkRateLimit now key (poll_rateLimit s))\<rparr>))"

definition rateLimitKey :: "string \<Rightarrow> string option \<Rightarrow> string" where
  "rateLimitKey action user =
     (case user of Some uid \<Rightarrow> action @ ''-'' @ uid | None \<Rightarrow> action @ ''-anonymous'')"

definition PGRST116 :: backend_error where
  "PGRST116 = \<lparr>code = ''PGRST116'', message = ''JSON object requested, multiple (or no) rows returned''\<rparr>"

definition single_data :: "'a list \<Rightarrow> 'a option" where
  "single_data rows = (case rows of [r] \<Rightarrow> Some r | _ \<Rightarrow> None)"

definition single_error :: "'a list \<Rightarrow> backend_error option" where
  "single_error rows = (case rows of [r] \<Rightarrow> None | _ \<Rightarrow> Some PGRST116)"

definition auth_getUser :: "server \<Rightarrow> (string option \<times> backend_error option) \<times> server" where
  "auth_getUser s =
     (((case fault s AuthGetUser of Some e \<Rightarrow> None | None \<Rightarrow> session_user s), fault s AuthGetUser),
      emit (Backend AuthGetUser) s)"

definition auth_signInWithPassword :: "string \<Rightarrow> string \<Rightarrow> server \<Rightarrow> backend_error option \<times> server" where
  "auth_signInWithPassword e p s = (fault s AuthSignIn, emit (Backend AuthSignIn) s)"

definition auth_signUp :: "string \<Rightarrow> string \<Rightarrow> string \<Rightarrow> server \<Rightarrow> backend_error option \<times> server" where
  "auth_signUp e p n s = (fault s AuthSignUp, emit (Backend AuthSignUp) s)"

definition auth_signOut :: "server \<Rightarrow> backend_error option \<times> server" where
  "auth_signOut s = (fault s AuthSignOut, emit (Backend AuthSignOut) (s\<lparr>session_user := (case fault s AuthSignOut of None \<Rightarrow> None | Some e \<Rightarrow> session_user s)\<rparr>))"

definition from_polls_select_single :: "filters \<Rightarrow> server \<Rightarrow> (poll option \<times> backend_error option) \<times> server" where
  "from_polls_select_single fs s =
     (((case fault s PollsSelect of Some e \<Rightarrow> None
        | None \<Rightarrow> single_data (filter (poll_where fs) (polls s))),
       (case fault s PollsSelect of Some e \<Rightarrow> Some e
        | None \<Rightarrow> single_error (filter (poll_where fs) (polls s)))),
      emit (Query PollsSelect fs) s)"

definition from_votes_select_single :: "filters \<Rightarrow> server \<Rightarrow> (vote option \<times> backend_error option) \<times> server" where
  "from_votes_select_single fs s =
     (((case fault s VotesSelect of Some e \<Rightarrow> None
        | None \<Rightarrow> single_data (filter (vote_where fs) (votes s))),
       (case fault s VotesSelect of Some e \<Rightarrow> Some e
        | None \<Rightarrow> single_error (filter (vote_where fs) (votes s)))),
      emit (Query VotesSelect fs) s)"

definition from_polls_insert :: "string \<Rightarrow> string \<Rightarrow> string list \<Rightarrow> server \<Rightarrow> backend_error option \<times> server" where
  "from_polls_insert uid q opts s =
     (fault s PollsInsert,
      emit (Query PollsInsert [])
        (case fault s PollsInsert of
           Some e \<Rightarrow> s
         | None \<Rightarrow>
             s\<lparr>polls := polls s @
                  [\<lparr>poll_id = new_id s (inserted s), poll_user_id = uid, poll_question = q, poll_options = opts\<rparr>],
               inserted := Suc (inserted s)\<rparr>))"

definition from_votes_insert :: "string \<Rightarrow> string option \<Rightarrow> int \<Rightarrow> server \<Rightarrow> backend_error option \<times> server" where
  "from_votes_insert pollId uid idx s =
     (fault s VotesInsert,
      emit (Query VotesInsert [])
        (case fault s VotesInsert of
           Some e \<Rightarrow> s
         | None \<Rightarrow>
             s\<lparr>votes := votes s @
                  [\<lparr>vote_id = new_id s (inserted s), vote_poll_id = pollId, vote_user_id = uid, vote_option_index = idx\<rparr>],
               inserted := Suc (inserted s)\<rparr>))"

definition from_polls_delete :: "filters \<Rightarrow> server \<Rightarrow> backend_error option \<times> server" where
  "from_polls_delete fs s =
     (fault s PollsDelete,
      emit (Query PollsDelete fs)
        (case fault s PollsDelete of
           Some e \<Rightarrow> s
         | None \<Rightarrow> s\<lparr>polls := filter (\<lambda>p. \<not> poll_where fs p) (polls s)\<rparr>))"

definition from_polls_update :: "filters \<Rightarrow> string \<Rightarrow> string list \<Rightarrow> server \<Rightarrow> backend_error option \<times> server" where
  "from_polls_update fs q opts s =
     (fault s PollsUpdate,
      emit (Query PollsUpdate fs)
        (case fault s PollsUpdate of
           Some e \<Rightarrow> s
         | None \<Rightarrow>
             s\<lparr>polls := map (\<lambda>p. if poll_where fs p
                                    then p\<lparr>poll_question := q, poll_options := opts\<rparr> else p) (polls s)\<rparr>))"

section \<open>Actions\<close>

text \<open>
  Each action takes the clock reading \<open>now\<close> that its call of \<open>checkRateLimit\<close>
  sees and the server state, and gives back the returned object (its \<open>error\<close> field)
  with the state after the call. \<open>createPoll\<close> and \<open>updatePoll\<close> use
  \<^verbatim>\<open>pollSchema.parse\<close>, which throws, and have no handler: their outcome is either the
  returned object or the error thrown out of the action.
\<close>

datatype 'a outcome = Returned 'a | Thrown "issue list"

definition login :: "validators \<Rightarrow> int \<Rightarrow> LoginFormData \<Rightarrow> server \<Rightarrow> js_error \<times> server" where
  "login V now data s0 =
     (case auth_gate now (''login-'' @ email data) s0 of (allowed, s1) \<Rightarrow>
      if \<not> allowed then (Message ''Too many login attempts. Please try again later.'', s1)
      else
        case loginSchema_safeParse V data of
          Inl issues \<Rightarrow> (first_of (formErrors (flatten issues)), emit (Validate LoginSchema False) s1)
        | Inr validatedData \<Rightarrow>
            (case auth_signInWithPassword (email validatedData) (password validatedData)
                    (emit (Validate LoginSchema True) s1) of (error, s2) \<Rightarrow>
             if error \<noteq> None then (Message ''Login failed. Please check your credentials.'', s2)
             else (Null, s2)))"

definition register :: "validators \<Rightarrow> int \<Rightarrow> RegisterFormData \<Rightarrow> server \<Rightarrow> js_error \<times> server" where
  "register V now data s0 =
     (case auth_gate now (''register-'' @ email data) s0 of (allowed, s1) \<Rightarrow>
      if \<not> allowed then (Message ''Too many registration attempts. Please try again later.'', s1)
      else
        case registerSchema_safeParse V data of
          Inl issues \<Rightarrow> (first_of (formErrors (flatten issues)), emit (Validate RegisterSchema False) s1)
        | Inr validatedData \<Rightarrow>
            (case auth_signUp (email validatedData) (password validatedData) (name validatedData)
                    (emit (Validate RegisterSchema True) s1) of (error, s2) \<Rightarrow>
             if error \<noteq> None then (Message ''Registration failed'', s2)
             else (Null, s2)))"

definition logout :: "server \<Rightarrow> js_error \<times> server" where
  "logout s0 =
     (case auth_signOut s0 of (error, s1) \<Rightarrow>
      if error \<noteq> None
      then (Message ''Logout failed. Please try again.'', emit (ConsoleError ''Logout error:'' error) s1)
      else (Null, s1))"

definition createPoll :: "int \<Rightarrow> FormData \<Rightarrow> server \<Rightarrow> js_error outcome \<times> server" where
  "createPoll now formData s0 =
     (case auth_getUser s0 of ((user, ignored), s1) \<Rightarrow>
      case poll_gate now (rateLimitKey ''create-poll'' user) s1 of (allowed, s2) \<Rightarrow>
      if \<not> allowed
      then (Returned (Message ''Too many poll creation attempts. Please try again later.''), s2)
      else
        case pollSchema_parse (formData_get formData ''question'')
               (filter truthy (formData_getAll formData ''options'')) of
          Inl issues \<Rightarrow> (Thrown issues, emit (Validate PollSchema False) s2)
        | Inr input \<Rightarrow>
            (case auth_getUser (emit (Validate PollSchema True) s2) of ((sessionUser, userError), s3) \<Rightarrow>
             case userError of
               Some e \<Rightarrow> (Returned (Message (message e)), s3)
             | None \<Rightarrow>
                 (case sessionUser of
                    None \<Rightarrow> (Returned (Message ''You must be logged in to create a poll.''), s3)
                  | Some uid \<Rightarrow>
                      (case from_polls_insert uid (input_question input) (input_options input) s3 of (error, s4) \<Rightarrow>
                       if error \<noteq> None
                       then (Returned (Message ''Failed to create poll. Please try again.''),
                             emit (ConsoleError ''Error creating poll:'' error) s4)
                       else (Returned Null, emit (Revalidate ''/polls'') s4)))))"

definition getPollById :: "validators \<Rightarrow> string \<Rightarrow> server \<Rightarrow> (poll option \<times> js_error) \<times> server" where
  "getPollById V ident s0 =
     (case idSchema_safeParse V ident of
        Inl issues \<Rightarrow> ((None, first_of (formErrors (flatten issues))), emit (Validate IdSchema False) s0)
      | Inr validatedId \<Rightarrow>
          (case from_polls_select_single [(Col_id, validatedId)] (emit (Validate IdSchema True) s0) of ((data, error), s1) \<Rightarrow>
           if error \<noteq> None
           then ((None, Message ''Failed to retrieve poll.''), emit (ConsoleError ''Error getting poll by ID:'' error) s1)
           else ((data, Null), s1)))"

definition submitVote :: "validators \<Rightarrow> int \<Rightarrow> string \<Rightarrow> js_number \<Rightarrow> server \<Rightarrow> js_error \<times> server" where
  "submitVote V now pollId optionIndex s0 =
     (case voteSchema_safeParse V pollId optionIndex of
        Inl issues \<Rightarrow> (first_of (formErrors (flatten issues)), emit (Validate VoteSchema False) s0)
      | Inr (validatedPollId, validatedOptionIndex) \<Rightarrow>
          (case auth_getUser (emit (Validate VoteSchema True) s0) of ((user, ignored), s1) \<Rightarrow>
           case poll_gate now (rateLimitKey ''submit-vote'' user) s1 of (allowed, s2) \<Rightarrow>
           if \<not> allowed then (Message ''Too many voting attempts. Please try again later.'', s2)
           else
             case from_polls_select_single [(Col_id, validatedPollId)] s2 of ((pollData, pollError), s3) \<Rightarrow>
             case (if pollError \<noteq> None then None else pollData) of
               None \<Rightarrow>
                 (Message ''Poll not found or failed to retrieve poll options.'',
                  emit (ConsoleError ''Error fetching poll for voting:'' pollError) s3)
             | Some p \<Rightarrow>
                 if validatedOptionIndex < 0 \<or> validatedOptionIndex \<ge> int (length (poll_options p))
                 then (Message ''Invalid option selected.'', s3)
                 else
                   case auth_getUser s3 of ((sessionUser, ignored'), s4) \<Rightarrow>
                   case (case sessionUser of
                           None \<Rightarrow> (None, s4)
                         | Some uid \<Rightarrow>
                             (case from_votes_select_single [(Col_poll_id, validatedPollId), (Col_user_id, uid)] s4 of
                                ((existingVote, existingVoteError), s5) \<Rightarrow>
                              if existingVote \<noteq> None
                              then (Some (Message ''You have already voted on this poll.''), s5)
                              else
                                case existingVoteError of
                                  None \<Rightarrow> (None, s5)
                                | Some e \<Rightarrow>
                                    if code e \<noteq> ''PGRST116''
                                    then (Some (Message ''Failed to check for existing vote.''),
                                          emit (ConsoleError ''Error checking for existing vote:'' existingVoteError) s5)
                                    else (None, s5))) of
                     (Some returned, s6) \<Rightarrow> (returned, s6)
                   | (None, s6) \<Rightarrow>
                       (case from_votes_insert validatedPollId sessionUser validatedOptionIndex s6 of (error, s7) \<Rightarrow>
                        if error \<noteq> None
                        then (Message ''Failed to submit vote. Please try again.'',
                              emit (ConsoleError ''Error submitting vote:'' error) s7)
                        else (Null, s7))))"

definition deletePoll :: "validators \<Rightarrow> int \<Rightarrow> string \<Rightarrow> server \<Rightarrow> js_error \<times> server" where
  "deletePoll V now ident s0 =
     (case idSchema_safeParse V ident of
        Inl issues \<Rightarrow> (first_of (formErrors (flatten issues)), emit (Validate IdSchema False) s0)
      | Inr validatedId \<Rightarrow>
          (case auth_getUser (emit (Validate IdSchema True) s0) of ((user, userError), s1) \<Rightarrow>
           case poll_gate now (rateLimitKey ''delete-poll'' user) s1 of (allowed, s2) \<Rightarrow>
           if \<not> allowed then (Message ''Too many poll deletion attempts. Please try again later.'', s2)
           else
             case userError of
               Some e \<Rightarrow> (Message (message e), s2)
             | None \<Rightarrow>
                 (case user of
                    None \<Rightarrow> (Message ''You must be logged in to delete a poll.'', s2)
                  | Some uid \<Rightarrow>
                      (case from_polls_select_single [(Col_id, validatedId)] s2 of ((found, fetchPollError), s3) \<Rightarrow>
                       case (if fetchPollError \<noteq> None then None else found) of
                         None \<Rightarrow>
                           (Message ''Poll not found or failed to verify ownership.'',
                            emit (ConsoleError ''Error fetching poll for deletion:'' fetchPollError) s3)
                       | Some p \<Rightarrow>
                           if poll_user_id p \<noteq> uid
                           then (Message ''You are not authorized to delete this poll.'', s3)
                           else
                             case from_polls_delete [(Col_id, validatedId), (Col_user_id, uid)] s3 of (error, s4) \<Rightarrow>
                             if error \<noteq> None
                             then (Message ''Failed to delete poll. Please try again.'',
                                   emit (ConsoleError ''Error deleting poll:'' error) s4)
                             else (Null, emit (Revalidate ''/polls'') s4)))))"

definition updatePoll :: "validators \<Rightarrow> int \<Rightarrow> string \<Rightarrow> FormData \<Rightarrow> server \<Rightarrow> js_error outcome \<times> server" where
  "updatePoll V now pollId formData s0 =
     (case idSchema_safeParse V pollId of
        Inl issues \<Rightarrow> (Returned (first_of (formErrors (flatten issues))), emit (Validate IdSchema False) s0)
      | Inr validatedPollId \<Rightarrow>
          (case auth_getUser (emit (Validate IdSchema True) s0) of ((user, ignored), s1) \<Rightarrow>
           case poll_gate now (rateLimitKey ''update-poll'' user) s1 of (allowed, s2) \<Rightarrow>
           if \<not> allowed
           then (Returned (Message ''Too many poll update attempts. Please try again later.''), s2)
           else
             case pollSchema_parse (formData_get formData ''question'')
                    (filter truthy (formData_getAll formData ''options'')) of
               Inl issues \<Rightarrow> (Thrown issues, emit (Validate PollSchema False) s2)
             | Inr input \<Rightarrow>
                 (case auth_getUser (emit (Validate PollSchema True) s2) of ((sessionUser, userError), s3) \<Rightarrow>
                  case userError of
                    Some e \<Rightarrow> (Returned (Message (message e)), s3)
                  | None \<Rightarrow>
                      (case sessionUser of
                         None \<Rightarrow> (Returned (Message ''You must be logged in to update a poll.''), s3)
                       | Some uid \<Rightarrow>
                           (case from_polls_update [(Col_id, validatedPollId), (Col_user_id, uid)]
                                   (input_question input) (input_options input) s3 of
                              (error, s4) \<Rightarrow>
                              if error \<noteq> None
                              then (Returned (Message ''Failed to update poll. Please try again.''),
                                    emit (ConsoleError ''Error updating poll:'' error) s4)
                              else (Returned Null, s4))))))"

section \<open>Notions used in the statements\<close>

text \<open>The user that \<^verbatim>\<open>auth.getUser()\<close> reports: none when the call fails.\<close>

definition current_user :: "server \<Rightarrow> string option" where
  "current_user s = fst (fst (auth_getUser s))"

text \<open>
  Order of steps in a trace. \<open>gate_at key allowed\<close> holds of a trace that starts with the
  call of the rate limiter under \<open>key\<close> with result \<open>allowed\<close> and, when that is a
  denial, ends there. \<open>gated_after pre key allowed\<close> holds of a trace that consists of
  exactly the steps \<open>pre\<close> followed by such a trace. \<open>gate_holds\<close> adds what a denial
  means for the result and the store.
\<close>

fun gate_at :: "string \<Rightarrow> bool \<Rightarrow> event list \<Rightarrow> bool" where
  "gate_at key allowed (RateLimit k ok # es) = (k = key \<and> ok = allowed \<and> (ok \<or> es = []))"
| "gate_at key allowed es = False"

fun gated_after :: "event list \<Rightarrow> string \<Rightarrow> bool \<Rightarrow> event list \<Rightarrow> bool" where
  "gated_after [] key allowed tr = gate_at key allowed tr"
| "gated_after (p # pre) key allowed [] = False"
| "gated_after (p # pre) key allowed (e # tr) = (e = p \<and> gated_after pre key allowed tr)"

fun is_gate :: "event \<Rightarrow> bool" where
  "is_gate (RateLimit key ok) = True"
| "is_gate e = False"

definition gate_holds :: "server \<Rightarrow> event list \<Rightarrow> string \<Rightarrow> bool \<Rightarrow> 'r \<Rightarrow> 'r \<times> server \<Rightarrow> bool" where
  "gate_holds s pre key allowed limit_error res =
     (gated_after pre key allowed (trace (snd res)) \<and>
      (\<not> allowed \<longrightarrow>
         fst res = limit_error \<and> polls (snd res) = polls s \<and> votes (snd res) = votes s))"

text \<open>
  An example server: one poll of Alice's with two options, one vote of Bob's, Bob logged
  in, no backend failure. The example validators stand in for the library's format
  tests and agree with them on the strings used below.
\<close>

definition example_validators :: validators where
  "example_validators = \<lparr>is_email = (\<lambda>s. CHR ''@'' \<in> set s), is_uuid = (\<lambda>s. length s = 36)\<rparr>"

definition example_poll_id :: string where
  "example_poll_id = ''11111111-1111-4111-8111-111111111111''"

definition example_poll :: poll where
  "example_poll = \<lparr>poll_id = example_poll_id, poll_user_id = ''alice'',
     poll_question = ''Tea or coffee?'', poll_options = [''tea'', ''coffee'']\<rparr>"

definition example_vote :: vote where
  "example_vote = \<lparr>vote_id = ''v1'', vote_poll_id = example_poll_id,
     vote_user_id = Some ''bob'', vote_option_index = 0\<rparr>"

definition example_server :: server where
  "example_server =
     \<lparr>auth_rateLimit = Map.empty, poll_rateLimit = Map.empty,
      polls = [example_poll], votes = [example_vote],
      session_user = Some ''bob'', fault = (\<lambda>b. None), new_id = (\<lambda>n. ''row''), inserted = 0, trace = []\<rparr>"

definition exhausted :: "string \<Rightarrow> rl_table" where
  "exhausted key = [key \<mapsto> \<lparr>count = 5, lastReset = 0\<rparr>]"

definition example_form :: "string \<Rightarrow> FormData" where
  "example_form q = [(''question'', Text q), (''options'', Text ''tea''), (''options'', Text ''coffee'')]"

definition session_missing :: backend_error where
  "session_missing = \<lparr>code = ''session_not_found'', message = ''Auth session missing!''\<rparr>"

section \<open>Properties of the rate limiter\<close>

lemma checkRateLimit_entry_step:
  "checkRateLimit now key rateLimit =
     (fst (entry_step now (rateLimit key)), rateLimit(key := snd (entry_step now (rateLimit key))))"
  by (cases "rateLimit key") (auto simp: checkRateLimit_def entry_step_def Let_def)

lemma checkRateLimit_other_key:
  "key' \<noteq> key \<Longrightarrow> snd (checkRateLimit now key' rateLimit) key = rateLimit key"
  by (simp add: checkRateLimit_entry_step)

lemma results_for_entry_steps:
  "results_for key (fst (checkRateLimit_calls cs rateLimit)) = entry_steps (times_for key cs) (rateLimit key)"
proof (induction cs arbitrary: rateLimit)
  case Nil
  show ?case by (simp add: results_for_def times_for_def)
next
  case (Cons c cs)
  obtain now k where c: "c = (now, k)" by (cases c)
  let ?rl = "snd (checkRateLimit now k rateLimit)"
  have step: "fst (checkRateLimit_calls (c # cs) rateLimit) =
      (k, fst (checkRateLimit now k rateLimit)) # fst (checkRateLimit_calls cs ?rl)"
    by (simp add: c split: prod.splits)
  show ?case
  proof (cases "k = key")
    case True
    have "?rl key = snd (entry_step now (rateLimit key))"
      by (simp add: True checkRateLimit_entry_step)
    moreover have "fst (checkRateLimit now k rateLimit) = fst (entry_step now (rateLimit key))"
      by (simp add: True checkRateLimit_entry_step)
    ultimately show ?thesis
      using Cons.IH [of ?rl] unfolding step by (simp add: results_for_def times_for_def c True)
  next
    case False
    then have "?rl key = rateLimit key"
      by (simp add: checkRateLimit_other_key)
    then show ?thesis
      using Cons.IH [of ?rl] False unfolding step by (simp add: results_for_def times_for_def c)
  qed
qed

lemma entry_step_fresh:
  "e = None \<or> (\<exists>entry. e = Some entry \<and> now - lastReset entry > RESET_INTERVAL) \<Longrightarrow>
   entry_step now e = (True, Some \<lparr>count = 1, lastReset = now\<rparr>)"
  by (auto simp: entry_step_def)

lemma entry_step_in_window:
  "t - t0 \<le> RESET_INTERVAL \<Longrightarrow> c < MAX_ATTEMPTS \<Longrightarrow>
   entry_step t (Some \<lparr>count = c, lastReset = t0\<rparr>) = (True, Some \<lparr>count = c + 1, lastReset = t0\<rparr>)"
  by (simp add: entry_step_def)

lemma entry_step_exhausted:
  "t - t0 \<le> RESET_INTERVAL \<Longrightarrow> c \<ge> MAX_ATTEMPTS \<Longrightarrow>
   entry_step t (Some \<lparr>count = c, lastReset = t0\<rparr>) = (False, Some \<lparr>count = c, lastReset = t0\<rparr>)"
  by (simp add: entry_step_def)

text \<open>
  C1. Take any run of calls, under any keys, on any table. If the window of \<open>key\<close> is
  closed when its first call arrives at \<open>t0\<close> (no entry, or an expired one), and the run
  holds six calls under \<open>key\<close>, the later five no more than \<open>RESET_INTERVAL\<close> after
  \<open>t0\<close>, then the first \<open>MAX_ATTEMPTS\<close> = 5 of them return true and the sixth returns
  false, whatever calls under other keys come in between.
\<close>

theorem checkRateLimit_window_allows_max_attempts:
  assumes "window_closed t0 key rateLimit"
    and "times_for key cs = [t0, t1, t2, t3, t4, t5]"
    and "t1 - t0 \<le> RESET_INTERVAL" and "t2 - t0 \<le> RESET_INTERVAL" and "t3 - t0 \<le> RESET_INTERVAL"
    and "t4 - t0 \<le> RESET_INTERVAL" and "t5 - t0 \<le> RESET_INTERVAL"
  shows "results_for key (fst (checkRateLimit_calls cs rateLimit)) = [True, True, True, True, True, False]"
proof -
  have fresh: "rateLimit key = None \<or> (\<exists>entry. rateLimit key = Some entry \<and> t0 - lastReset entry > RESET_INTERVAL)"
    using assms(1) by (auto simp: window_closed_def split: option.splits)
  have s0: "entry_step t0 (rateLimit key) = (True, Some \<lparr>count = 1, lastReset = t0\<rparr>)"
    by (rule entry_step_fresh [OF fresh])
  have s1: "entry_step t1 (Some \<lparr>count = 1, lastReset = t0\<rparr>) = (True, Some \<lparr>count = 2, lastReset = t0\<rparr>)"
    using entry_step_in_window [OF assms(3), of 1] by (simp add: MAX_ATTEMPTS_def)
  have s2: "entry_step t2 (Some \<lparr>count = 2, lastReset = t0\<rparr>) = (True, Some \<lparr>count = 3, lastReset = t0\<rparr>)"
    using entry_step_in_window [OF assms(4), of 2] by (simp add: MAX_ATTEMPTS_def)
  have s3: "entry_step t3 (Some \<lparr>count = 3, lastReset = t0\<rparr>) = (True, Some \<lparr>count = 4, lastReset = t0\<rparr>)"
    using entry_step_in_window [OF assms(5), of 3] by (simp add: MAX_ATTEMPTS_def)
  have s4: "entry_step t4 (Some \<lparr>count = 4, lastReset = t0\<rparr>) = (True, Some \<lparr>count = 5, lastReset = t0\<rparr>)"
    using entry_step_in_window [OF assms(6), of 4] by (simp add: MAX_ATTEMPTS_def)
  have s5: "entry_step t5 (Some \<lparr>count = 5, lastReset = t0\<rparr>) = (False, Some \<lparr>count = 5, lastReset = t0\<rparr>)"
    using entry_step_exhausted [OF assms(7), of 5] by (simp add: MAX_ATTEMPTS_def)
  show ?thesis
    by (simp add: results_for_entry_steps assms(2) s0 s1 s2 s3 s4 s5)
qed

theorem checkRateLimit_window_allows_max_attempts_witness:
  "window_closed 1000 ''login-a@b.co'' Map.empty \<and>
   times_for ''login-a@b.co''
     [(1000, ''login-a@b.co''), (1001, ''login-a@b.co''), (1500, ''login-c@d.io''), (2000, ''login-a@b.co''),
      (30000, ''login-a@b.co''), (60999, ''login-a@b.co''), (61000, ''login-a@b.co'')]
     = [1000, 1001, 2000, 30000, 60999, 61000] \<and>
   results_for ''login-a@b.co'' (fst (checkRateLimit_calls
     [(1000, ''login-a@b.co''), (1001, ''login-a@b.co''), (1500, ''login-c@d.io''), (2000, ''login-a@b.co''),
      (30000, ''login-a@b.co''), (60999, ''login-a@b.co''), (61000, ''login-a@b.co'')] Map.empty))
     = [True, True, True, True, True, False]"
proof -
  have w: "window_closed 1000 ''login-a@b.co'' Map.empty"
    by (simp add: window_closed_def)
  have t: "times_for ''login-a@b.co''
     [(1000, ''login-a@b.co''), (1001, ''login-a@b.co''), (1500, ''login-c@d.io''), (2000, ''login-a@b.co''),
      (30000, ''login-a@b.co''), (60999, ''login-a@b.co''), (61000, ''login-a@b.co'')]
     = [1000, 1001, 2000, 30000, 60999, 61000]"
    by (simp add: times_for_def)
  have r: "results_for ''login-a@b.co'' (fst (checkRateLimit_calls
     [(1000, ''login-a@b.co''), (1001, ''login-a@b.co''), (1500, ''login-c@d.io''), (2000, ''login-a@b.co''),
      (30000, ''login-a@b.co''), (60999, ''login-a@b.co''), (61000, ''login-a@b.co'')] Map.empty))
     = [True, True, True, True, True, False]"
    by (rule checkRateLimit_window_allows_max_attempts [OF w t]) (simp_all add: RESET_INTERVAL_def)
  from w t r show ?thesis
    by (intro conjI)
qed

text \<open>
  C9. Whatever entry a key has (in particular one whose count has reached the limit, so
  that calls were being denied), a call made more than \<open>RESET_INTERVAL\<close> after the
  entry's window start (the time of the first call of that window) returns true and
  replaces the entry by count 1 with the call's time as the new window start. The test
  is strict, as in the source: see \<open>checkRateLimit_at_interval_no_reset\<close>.
\<close>

theorem checkRateLimit_resets_after_interval:
  assumes "rateLimit key = Some entry"
    and "now - lastReset entry > RESET_INTERVAL"
  shows "checkRateLimit now key rateLimit = (True, rateLimit(key \<mapsto> \<lparr>count = 1, lastReset = now\<rparr>))"
  using assms by (simp add: checkRateLimit_def)

theorem checkRateLimit_resets_after_interval_witness:
  "[''k'' \<mapsto> \<lparr>count = 5, lastReset = 1000\<rparr>] ''k'' = Some \<lparr>count = 5, lastReset = 1000\<rparr> \<and>
   61001 - lastReset \<lparr>count = 5, lastReset = 1000\<rparr> > RESET_INTERVAL \<and>
   fst (checkRateLimit 61000 ''k'' [''k'' \<mapsto> \<lparr>count = 5, lastReset = 1000\<rparr>]) = False \<and>
   checkRateLimit 61001 ''k'' [''k'' \<mapsto> \<lparr>count = 5, lastReset = 1000\<rparr>]
     = (True, [''k'' \<mapsto> \<lparr>count = 5, lastReset = 1000\<rparr>](''k'' \<mapsto> \<lparr>count = 1, lastReset = 61001\<rparr>))"
proof -
  have a: "[''k'' \<mapsto> \<lparr>count = 5, lastReset = 1000\<rparr>] ''k'' = Some \<lparr>count = 5, lastReset = 1000\<rparr>"
    by simp
  have b: "61001 - lastReset \<lparr>count = 5, lastReset = 1000\<rparr> > RESET_INTERVAL"
    by (simp add: RESET_INTERVAL_def)
  have c: "fst (checkRateLimit 61000 ''k'' [''k'' \<mapsto> \<lparr>count = 5, lastReset = 1000\<rparr>]) = False"
    by (simp add: checkRateLimit_def RESET_INTERVAL_def MAX_ATTEMPTS_def)
  show ?thesis
    using a b c
      checkRateLimit_resets_after_interval
        [of "[''k'' \<mapsto> \<lparr>count = 5, lastReset = 1000\<rparr>]" "''k''" "\<lparr>count = 5, lastReset = 1000\<rparr>" 61001, OF a b]
    by simp
qed

lemma checkRateLimit_at_interval_no_reset:
  assumes "rateLimit key = Some entry"
    and "now - lastReset entry = RESET_INTERVAL"
  shows "checkRateLimit now key rateLimit =
      (if count entry \<ge> MAX_ATTEMPTS then (False, rateLimit)
       else (True, rateLimit(key \<mapsto> entry\<lparr>count := count entry + 1\<rparr>)))"
  using assms by (simp add: checkRateLimit_def Let_def)

lemma checkRateLimit_count_ok:
  assumes "count_ok rateLimit"
  shows "count_ok (snd (checkRateLimit now key rateLimit))"
  unfolding count_ok_def
proof (intro allI impI)
  fix k entry
  assume h: "snd (checkRateLimit now key rateLimit) k = Some entry"
  show "1 \<le> count entry \<and> count entry \<le> MAX_ATTEMPTS"
  proof (cases "k = key")
    case False
    then have "rateLimit k = Some entry"
      using h by (simp add: checkRateLimit_other_key)
    then show ?thesis using assms by (simp add: count_ok_def)
  next
    case True
    show ?thesis
    proof (cases "rateLimit key")
      case None
      then show ?thesis using h True by (auto simp: checkRateLimit_def MAX_ATTEMPTS_def)
    next
      case (Some e)
      then have "1 \<le> count e \<and> count e \<le> MAX_ATTEMPTS"
        using assms by (simp add: count_ok_def)
      then show ?thesis
        using h True Some by (auto simp: checkRateLimit_def Let_def MAX_ATTEMPTS_def split: if_splits)
    qed
  qed
qed

lemma checkRateLimit_calls_count_ok:
  "count_ok rateLimit \<Longrightarrow> count_ok (snd (checkRateLimit_calls cs rateLimit))"
proof (induction cs arbitrary: rateLimit)
  case Nil
  then show ?case by simp
next
  case (Cons c cs)
  obtain now k where c: "c = (now, k)" by (cases c)
  have "count_ok (snd (checkRateLimit now k rateLimit))"
    using Cons.prems by (rule checkRateLimit_count_ok)
  then have "count_ok (snd (checkRateLimit_calls cs (snd (checkRateLimit now k rateLimit))))"
    by (rule Cons.IH)
  then show ?case
    by (simp add: c case_prod_beta)
qed

lemma checkRateLimit_denied_unchanged:
  "\<not> fst (checkRateLimit now key rateLimit) \<Longrightarrow> snd (checkRateLimit now key rateLimit) = rateLimit"
  by (auto simp: checkRateLimit_def Let_def split: if_splits)

lemma checkRateLimit_allowed_cases:
  assumes "fst (checkRateLimit now key rateLimit)"
  shows "snd (checkRateLimit now key rateLimit) key = Some \<lparr>count = 1, lastReset = now\<rparr> \<or>
         (\<exists>entry. rateLimit key = Some entry \<and> count entry < MAX_ATTEMPTS \<and>
            snd (checkRateLimit now key rateLimit) key = Some (entry\<lparr>count := count entry + 1\<rparr>))"
  using assms by (auto simp: checkRateLimit_def Let_def split: if_splits)

text \<open>
  C10. The table starts empty. After any finite run of calls every entry of the table has
  \<open>1 \<le> count \<le> MAX_ATTEMPTS\<close>. For a single call on any table: a call that returns false
  leaves the table as it was; a call that returns true either stored a fresh entry with
  count 1, or found an entry with count below \<open>MAX_ATTEMPTS\<close> and stored it with the count
  raised by one; and the entries of all other keys are untouched.
\<close>

theorem checkRateLimit_count_invariant:
  "(\<forall>key entry. snd (checkRateLimit_calls cs Map.empty) key = Some entry \<longrightarrow>
      1 \<le> count entry \<and> count entry \<le> MAX_ATTEMPTS) \<and>
   (\<not> fst (checkRateLimit now k rateLimit) \<longrightarrow> snd (checkRateLimit now k rateLimit) = rateLimit) \<and>
   (fst (checkRateLimit now k rateLimit) \<longrightarrow>
      snd (checkRateLimit now k rateLimit) k = Some \<lparr>count = 1, lastReset = now\<rparr> \<or>
      (\<exists>entry. rateLimit k = Some entry \<and> count entry < MAX_ATTEMPTS \<and>
         snd (checkRateLimit now k rateLimit) k = Some (entry\<lparr>count := count entry + 1\<rparr>))) \<and>
   (\<forall>k'. k' \<noteq> k \<longrightarrow> snd (checkRateLimit now k rateLimit) k' = rateLimit k')"
proof -
  have "count_ok (Map.empty :: rl_table)"
    by (simp add: count_ok_def)
  then have "count_ok (snd (checkRateLimit_calls cs Map.empty))"
    by (rule checkRateLimit_calls_count_ok)
  then have inv: "\<forall>key entry. snd (checkRateLimit_calls cs Map.empty) key = Some entry \<longrightarrow>
      1 \<le> count entry \<and> count entry \<le> MAX_ATTEMPTS"
    by (simp add: count_ok_def)
  have denied: "\<not> fst (checkRateLimit now k rateLimit) \<longrightarrow> snd (checkRateLimit now k rateLimit) = rateLimit"
    by (simp add: checkRateLimit_denied_unchanged)
  have allowed: "fst (checkRateLimit now k rateLimit) \<longrightarrow>
      snd (checkRateLimit now k rateLimit) k = Some \<lparr>count = 1, lastReset = now\<rparr> \<or>
      (\<exists>entry. rateLimit k = Some entry \<and> count entry < MAX_ATTEMPTS \<and>
         snd (checkRateLimit now k rateLimit) k = Some (entry\<lparr>count := count entry + 1\<rparr>))"
    using checkRateLimit_allowed_cases [of now k rateLimit] by (rule impI)
  have frame: "\<forall>k'. k' \<noteq> k \<longrightarrow> snd (checkRateLimit now k rateLimit) k' = rateLimit k'"
    by (simp add: checkRateLimit_other_key)
  from inv denied allowed frame show ?thesis
    by (intro conjI)
qed

theorem checkRateLimit_count_invariant_witness:
  "snd (checkRateLimit_calls [(0, ''k''), (1, ''k'')] Map.empty) ''k'' = Some \<lparr>count = 2, lastReset = 0\<rparr> \<and>
   1 \<le> count \<lparr>count = 2, lastReset = 0\<rparr> \<and> count \<lparr>count = 2, lastReset = 0\<rparr> \<le> MAX_ATTEMPTS \<and>
   \<not> fst (checkRateLimit 10 ''k'' [''k'' \<mapsto> \<lparr>count = 5, lastReset = 0\<rparr>]) \<and>
   snd (checkRateLimit 10 ''k'' [''k'' \<mapsto> \<lparr>count = 5, lastReset = 0\<rparr>]) = [''k'' \<mapsto> \<lparr>count = 5, lastReset = 0\<rparr>] \<and>
   ''j'' \<noteq> ''k'' \<and>
   snd (checkRateLimit 10 ''k'' [''k'' \<mapsto> \<lparr>count = 5, lastReset = 0\<rparr>]) ''j'' = [''k'' \<mapsto> \<lparr>count = 5, lastReset = 0\<rparr>] ''j''"
proof -
  have e1: "checkRateLimit 0 ''k'' Map.empty = (True, [''k'' \<mapsto> \<lparr>count = 1, lastReset = 0\<rparr>])"
    by (simp add: checkRateLimit_def)
  have e2: "checkRateLimit 1 ''k'' [''k'' \<mapsto> \<lparr>count = 1, lastReset = 0\<rparr>] = (True, [''k'' \<mapsto> \<lparr>count = 2, lastReset = 0\<rparr>])"
    by (simp add: checkRateLimit_def RESET_INTERVAL_def MAX_ATTEMPTS_def)
  have e: "snd (checkRateLimit_calls [(0, ''k''), (1, ''k'')] Map.empty) ''k'' = Some \<lparr>count = 2, lastReset = 0\<rparr>"
    by (simp add: e1 e2)
  have d: "\<not> fst (checkRateLimit 10 ''k'' [''k'' \<mapsto> \<lparr>count = 5, lastReset = 0\<rparr>])"
    by (simp add: checkRateLimit_def RESET_INTERVAL_def MAX_ATTEMPTS_def)
  have n: "''j'' \<noteq> ''k''"
    by simp
  note inst = checkRateLimit_count_invariant
    [of "[(0, ''k''), (1, ''k'')]" 10 "''k''" "[''k'' \<mapsto> \<lparr>count = 5, lastReset = 0\<rparr>]"]
  note b = inst [THEN conjunct1, rule_format, OF e]
  note u = inst [THEN conjunct2, THEN conjunct1, rule_format, OF d]
  note f = inst [THEN conjunct2, THEN conjunct2, THEN conjunct2, rule_format, OF n]
  from e b [THEN conjunct1] b [THEN conjunct2] d u n f show ?thesis
    by (intro conjI)
qed

section \<open>Properties of the actions\<close>

subsection \<open>Basic facts about the steps\<close>

lemma poll_where_id:
  "poll_where [(Col_id, x)] = (\<lambda>p. poll_id p = x)"
  by (rule ext) (simp add: poll_where_def)

lemma poll_where_id_owner:
  "poll_where [(Col_id, x), (Col_user_id, u)] = (\<lambda>p. poll_id p = x \<and> poll_user_id p = u)"
  by (rule ext) (simp add: poll_where_def)

lemma vote_where_poll_user:
  "vote_where [(Col_poll_id, x), (Col_user_id, u)] = (\<lambda>v. vote_poll_id v = x \<and> vote_user_id v = Some u)"
  by (rule ext) (simp add: vote_where_def)

lemmas backend_defs =
  emit_def auth_gate_def poll_gate_def auth_getUser_def auth_signInWithPassword_def auth_signUp_def
  auth_signOut_def from_polls_select_single_def from_votes_select_single_def from_polls_insert_def from_votes_insert_def
  from_polls_delete_def from_polls_update_def poll_where_id poll_where_id_owner vote_where_poll_user

lemma idSchema_safeParse_valid:
  "is_uuid V ident \<Longrightarrow> idSchema_safeParse V ident = Inr ident"
  by (simp add: idSchema_safeParse_def check_def)

lemma idSchema_safeParse_invalid:
  "\<not> is_uuid V ident \<Longrightarrow> idSchema_safeParse V ident = Inl [Issue [] ''Invalid ID format'']"
  by (simp add: idSchema_safeParse_def check_def)

lemma voteSchema_safeParse_valid:
  "is_uuid V pollId \<Longrightarrow> 0 \<le> n \<Longrightarrow> voteSchema_safeParse V pollId (Integer n) = Inr (pollId, n)"
  by (simp add: voteSchema_safeParse_def check_def)

lemma current_user_session:
  "fault s AuthGetUser = None \<Longrightarrow> current_user s = session_user s"
  by (simp add: current_user_def auth_getUser_def)

lemma auth_getUser_eq:
  "auth_getUser s = ((current_user s, fault s AuthGetUser), emit (Backend AuthGetUser) s)"
  by (simp add: current_user_def auth_getUser_def)

lemma current_user_update [simp]:
  "current_user (s\<lparr>trace := t\<rparr>) = current_user s"
  "current_user (s\<lparr>poll_rateLimit := r\<rparr>) = current_user s"
  "current_user (s\<lparr>auth_rateLimit := r\<rparr>) = current_user s"
  "current_user (s\<lparr>polls := ps\<rparr>) = current_user s"
  "current_user (s\<lparr>votes := vs\<rparr>) = current_user s"
  "current_user (s\<lparr>inserted := i\<rparr>) = current_user s"
  by (simp_all add: current_user_def auth_getUser_def split: option.splits)

lemma current_user_as [simp]:
  "fault s AuthGetUser = None \<Longrightarrow> current_user (s\<lparr>session_user := u\<rparr>) = u"
  by (simp add: current_user_def auth_getUser_def)

lemma current_user_fault:
  "fault s AuthGetUser = Some e \<Longrightarrow> current_user s = None"
  by (simp add: current_user_def auth_getUser_def)

lemmas step_defs =
  emit_def auth_gate_def poll_gate_def auth_getUser_eq auth_signInWithPassword_def auth_signUp_def
  auth_signOut_def from_polls_select_single_def from_votes_select_single_def from_polls_insert_def from_votes_insert_def
  from_polls_delete_def from_polls_update_def single_data_def single_error_def
  poll_where_id poll_where_id_owner vote_where_poll_user

lemma check_path_nonempty:
  "i \<in> set (check ok (k # path) msg) \<Longrightarrow> issue_path i \<noteq> []"
  by (auto simp: check_def split: if_splits)

lemma loginSchema_no_formErrors:
  "loginSchema_safeParse V d = Inl issues \<Longrightarrow> formErrors (flatten issues) = []"
  by (auto simp: loginSchema_safeParse_def flatten_def Let_def filter_empty_conv
      dest: check_path_nonempty split: if_splits)

lemma registerSchema_no_formErrors:
  "registerSchema_safeParse V d = Inl issues \<Longrightarrow> formErrors (flatten issues) = []"
  by (auto simp: registerSchema_safeParse_def flatten_def Let_def filter_empty_conv
      dest: check_path_nonempty split: if_splits)

lemma voteSchema_no_formErrors:
  "voteSchema_safeParse V pollId optionIndex = Inl issues \<Longrightarrow> formErrors (flatten issues) = []"
  by (auto simp: voteSchema_safeParse_def flatten_def Let_def filter_empty_conv
      dest: check_path_nonempty split: if_splits js_number.splits)

lemma pollSchema_parse_accepts:
  assumes "5 \<le> length q" and "length q \<le> 255"
    and "1 \<le> length a" and "length a \<le> 100" and "1 \<le> length b" and "length b \<le> 100"
  shows "pollSchema_parse (Some (Text q)) [Text a, Text b] =
      Inr \<lparr>input_question = trim q, input_options = [trim a, trim b]\<rparr>"
  using assms
  by (simp add: pollSchema_parse_def question_issues_def options_issues_def option_issues_def check_def
      enumerate_eq_zip upt_rec)

subsection \<open>Facts about the example server\<close>

lemma example_uuid: "is_uuid example_validators example_poll_id"
  by (simp add: example_validators_def example_poll_id_def)

lemma example_fault [simp]: "fault example_server b = None"
  by (simp add: example_server_def)

lemma example_polls: "filter (\<lambda>q. poll_id q = example_poll_id) (polls example_server) = [example_poll]"
  by (simp add: example_server_def example_poll_def)

lemma example_votes_bob:
  "filter (\<lambda>v. vote_poll_id v = example_poll_id \<and> vote_user_id v = Some ''bob'') (votes example_server) = [example_vote]"
  by (simp add: example_server_def example_vote_def)

lemma example_votes_carol:
  "filter (\<lambda>v. vote_poll_id v = example_poll_id \<and> vote_user_id v = Some ''carol'') (votes example_server) = []"
  by (simp add: example_server_def example_vote_def)

lemma example_gate: "fst (checkRateLimit now key (poll_rateLimit example_server))"
  by (simp add: example_server_def checkRateLimit_def)

lemma example_auth_gate: "fst (checkRateLimit now key (auth_rateLimit example_server))"
  by (simp add: example_server_def checkRateLimit_def)

lemma example_current_user: "current_user example_server = Some ''bob''"
  by (simp add: current_user_session example_server_def)

lemma exhausted_denies: "\<not> fst (checkRateLimit 60000 key (exhausted key))"
  by (simp add: exhausted_def checkRateLimit_def RESET_INTERVAL_def MAX_ATTEMPTS_def)

subsection \<open>Order of the rate-limit gate (C2)\<close>

text \<open>
  C2 as stated fails: with the key of the caller exhausted, \<open>submitVote\<close> has validated
  its arguments and called the backend for the caller's identity before the rate limiter
  denies; with an invalid identifier it returns the validation result and never reaches
  the rate limiter; and \<open>logout\<close> mutates the session without any rate limiting.
\<close>

theorem submitVote_validates_before_gate:
  "trace (snd (submitVote example_validators 60000 example_poll_id (Integer 0)
      (example_server\<lparr>poll_rateLimit := exhausted ''submit-vote-bob''\<rparr>))) =
     [Validate VoteSchema True, Backend AuthGetUser, RateLimit ''submit-vote-bob'' False] \<and>
   fst (submitVote example_validators 60000 ''no-uuid'' (Integer 0)
      (example_server\<lparr>poll_rateLimit := exhausted ''submit-vote-bob''\<rparr>)) = Undefined \<and>
   trace (snd (logout example_server)) = [Backend AuthSignOut]"
proof (intro conjI)
  have u: "current_user (example_server\<lparr>poll_rateLimit := exhausted ''submit-vote-bob''\<rparr>) = Some ''bob''"
    by (simp add: example_current_user)
  have k: "rateLimitKey ''submit-vote'' (Some ''bob'') = ''submit-vote-bob''"
    by (simp add: rateLimitKey_def)
  show "trace (snd (submitVote example_validators 60000 example_poll_id (Integer 0)
      (example_server\<lparr>poll_rateLimit := exhausted ''submit-vote-bob''\<rparr>))) =
     [Validate VoteSchema True, Backend AuthGetUser, RateLimit ''submit-vote-bob'' False]"
    using exhausted_denies [of "''submit-vote-bob''"]
    by (simp add: submitVote_def voteSchema_safeParse_valid example_uuid step_defs k example_current_user)
      (simp add: example_server_def)
  show "fst (submitVote example_validators 60000 ''no-uuid'' (Integer 0)
      (example_server\<lparr>poll_rateLimit := exhausted ''submit-vote-bob''\<rparr>)) = Undefined"
    by (simp add: submitVote_def voteSchema_safeParse_def check_def example_validators_def flatten_def first_of_def)
  show "trace (snd (logout example_server)) = [Backend AuthSignOut]"
    by (simp add: logout_def step_defs) (simp add: example_server_def)
qed

lemma login_gate:
  "gate_holds s [] (''login-'' @ email d) (fst (checkRateLimit now (''login-'' @ email d) (auth_rateLimit s)))
     (Message ''Too many login attempts. Please try again later.'') (login V now d (s\<lparr>trace := []\<rparr>))"
  by (simp add: gate_holds_def login_def step_defs split: sum.splits)

lemma register_gate:
  "gate_holds s [] (''register-'' @ email r) (fst (checkRateLimit now (''register-'' @ email r) (auth_rateLimit s)))
     (Message ''Too many registration attempts. Please try again later.'') (register V now r (s\<lparr>trace := []\<rparr>))"
  by (simp add: gate_holds_def register_def step_defs split: sum.splits)

lemma createPoll_gate:
  "gate_holds s [Backend AuthGetUser] (rateLimitKey ''create-poll'' (current_user s))
     (fst (checkRateLimit now (rateLimitKey ''create-poll'' (current_user s)) (poll_rateLimit s)))
     (Returned (Message ''Too many poll creation attempts. Please try again later.''))
     (createPoll now formData (s\<lparr>trace := []\<rparr>))"
  by (auto simp: gate_holds_def createPoll_def step_defs split: sum.splits option.splits)

lemma submitVote_gate:
  "\<not> isl (voteSchema_safeParse V pollId optionIndex) \<longrightarrow>
   gate_holds s [Validate VoteSchema True, Backend AuthGetUser] (rateLimitKey ''submit-vote'' (current_user s))
     (fst (checkRateLimit now (rateLimitKey ''submit-vote'' (current_user s)) (poll_rateLimit s)))
     (Message ''Too many voting attempts. Please try again later.'')
     (submitVote V now pollId optionIndex (s\<lparr>trace := []\<rparr>))"
proof
  assume "\<not> isl (voteSchema_safeParse V pollId optionIndex)"
  then obtain pid n where v: "voteSchema_safeParse V pollId optionIndex = Inr (pid, n)"
    by (cases "voteSchema_safeParse V pollId optionIndex") auto
  let ?allowed = "fst (checkRateLimit now (rateLimitKey ''submit-vote'' (current_user s)) (poll_rateLimit s))"
  show "gate_holds s [Validate VoteSchema True, Backend AuthGetUser] (rateLimitKey ''submit-vote'' (current_user s))
     ?allowed (Message ''Too many voting attempts. Please try again later.'')
     (submitVote V now pollId optionIndex (s\<lparr>trace := []\<rparr>))"
  proof (cases ?allowed)
    case False
    then show ?thesis
      by (simp add: gate_holds_def submitVote_def v step_defs)
  next
    case True
    then show ?thesis
      by (auto simp: gate_holds_def submitVote_def v step_defs split: option.splits prod.splits)
  qed
qed

lemma submitVote_invalid_trace:
  "isl (voteSchema_safeParse V pollId optionIndex) \<longrightarrow>
   trace (snd (submitVote V now pollId optionIndex (s\<lparr>trace := []\<rparr>))) = [Validate VoteSchema False]"
  by (auto simp: submitVote_def step_defs split: sum.splits)

lemma deletePoll_gate:
  "is_uuid V ident \<longrightarrow>
   gate_holds s [Validate IdSchema True, Backend AuthGetUser] (rateLimitKey ''delete-poll'' (current_user s))
     (fst (checkRateLimit now (rateLimitKey ''delete-poll'' (current_user s)) (poll_rateLimit s)))
     (Message ''Too many poll deletion attempts. Please try again later.'')
     (deletePoll V now ident (s\<lparr>trace := []\<rparr>))"
  by (auto simp: gate_holds_def deletePoll_def idSchema_safeParse_valid step_defs
      split: sum.splits option.splits)

lemma deletePoll_invalid_trace:
  "\<not> is_uuid V ident \<longrightarrow>
   trace (snd (deletePoll V now ident (s\<lparr>trace := []\<rparr>))) = [Validate IdSchema False]"
  by (simp add: deletePoll_def idSchema_safeParse_invalid step_defs)

lemma updatePoll_gate:
  "is_uuid V ident \<longrightarrow>
   gate_holds s [Validate IdSchema True, Backend AuthGetUser] (rateLimitKey ''update-poll'' (current_user s))
     (fst (checkRateLimit now (rateLimitKey ''update-poll'' (current_user s)) (poll_rateLimit s)))
     (Returned (Message ''Too many poll update attempts. Please try again later.''))
     (updatePoll V now ident formData (s\<lparr>trace := []\<rparr>))"
  by (auto simp: gate_holds_def updatePoll_def idSchema_safeParse_valid step_defs
      split: sum.splits option.splits)

lemma updatePoll_invalid_trace:
  "\<not> is_uuid V ident \<longrightarrow>
   trace (snd (updatePoll V now ident formData (s\<lparr>trace := []\<rparr>))) = [Validate IdSchema False]"
  by (simp add: updatePoll_def idSchema_safeParse_invalid step_defs)

lemma logout_no_gate:
  "\<not> list_ex is_gate (trace (snd (logout (s\<lparr>trace := []\<rparr>))))"
  by (simp add: logout_def step_defs)

text \<open>
  C2, as amended. Run on an empty trace, each of the six rate-limited actions calls the
  rate limiter under the key of its action and caller, after exactly these steps:
  \<open>login\<close> and \<open>register\<close> after none; \<open>createPoll\<close> after the identity lookup that builds
  the key; \<open>submitVote\<close>, \<open>deletePoll\<close> and \<open>updatePoll\<close> after the successful validation
  of their identifier or vote arguments and the identity lookup (when that validation
  fails, it is their only step and the rate limiter is not called). Every other step
  (validation of the poll form, sign-in and sign-up, table reads and writes, logging,
  cache invalidation) comes after the rate limiter has allowed the call. When the rate
  limiter denies, nothing follows the denial in the trace, the action returns its own
  rate-limit error, and the polls and votes tables are unchanged. \<open>logout\<close> calls no rate
  limiter.
\<close>

theorem rate_limit_gate_order:
  "gate_holds s [] (''login-'' @ email d) (fst (checkRateLimit now (''login-'' @ email d) (auth_rateLimit s)))
     (Message ''Too many login attempts. Please try again later.'') (login V now d (s\<lparr>trace := []\<rparr>)) \<and>
   gate_holds s [] (''register-'' @ email r) (fst (checkRateLimit now (''register-'' @ email r) (auth_rateLimit s)))
     (Message ''Too many registration attempts. Please try again later.'') (register V now r (s\<lparr>trace := []\<rparr>)) \<and>
   gate_holds s [Backend AuthGetUser] (rateLimitKey ''create-poll'' (current_user s))
     (fst (checkRateLimit now (rateLimitKey ''create-poll'' (current_user s)) (poll_rateLimit s)))
     (Returned (Message ''Too many poll creation attempts. Please try again later.''))
     (createPoll now formData (s\<lparr>trace := []\<rparr>)) \<and>
   (\<not> isl (voteSchema_safeParse V pollId optionIndex) \<longrightarrow>
    gate_holds s [Validate VoteSchema True, Backend AuthGetUser] (rateLimitKey ''submit-vote'' (current_user s))
      (fst (checkRateLimit now (rateLimitKey ''submit-vote'' (current_user s)) (poll_rateLimit s)))
      (Message ''Too many voting attempts. Please try again later.'')
      (submitVote V now pollId optionIndex (s\<lparr>trace := []\<rparr>))) \<and>
   (isl (voteSchema_safeParse V pollId optionIndex) \<longrightarrow>
    trace (snd (submitVote V now pollId optionIndex (s\<lparr>trace := []\<rparr>))) = [Validate VoteSchema False]) \<and>
   (is_uuid V ident \<longrightarrow>
    gate_holds s [Validate IdSchema True, Backend AuthGetUser] (rateLimitKey ''delete-poll'' (current_user s))
      (fst (checkRateLimit now (rateLimitKey ''delete-poll'' (current_user s)) (poll_rateLimit s)))
      (Message ''Too many poll deletion attempts. Please try again later.'')
      (deletePoll V now ident (s\<lparr>trace := []\<rparr>))) \<and>
   (\<not> is_uuid V ident \<longrightarrow>
    trace (snd (deletePoll V now ident (s\<lparr>trace := []\<rparr>))) = [Validate IdSchema False]) \<and>
   (is_uuid V ident \<longrightarrow>
    gate_holds s [Validate IdSchema True, Backend AuthGetUser] (rateLimitKey ''update-poll'' (current_user s))
      (fst (checkRateLimit now (rateLimitKey ''update-poll'' (current_user s)) (poll_rateLimit s)))
      (Returned (Message ''Too many poll update attempts. Please try again later.''))
      (updatePoll V now ident formData (s\<lparr>trace := []\<rparr>))) \<and>
   (\<not> is_uuid V ident \<longrightarrow>
    trace (snd (updatePoll V now ident formData (s\<lparr>trace := []\<rparr>))) = [Validate IdSchema False]) \<and>
   \<not> list_ex is_gate (trace (snd (logout (s\<lparr>trace := []\<rparr>))))"
  by (intro conjI login_gate register_gate createPoll_gate submitVote_gate submitVote_invalid_trace
      deletePoll_gate deletePoll_invalid_trace updatePoll_gate updatePoll_invalid_trace logout_no_gate)

theorem rate_limit_gate_order_witness:
  "\<not> isl (voteSchema_safeParse example_validators example_poll_id (Integer 0)) \<and>
   \<not> fst (checkRateLimit 60000 ''submit-vote-bob'' (exhausted ''submit-vote-bob'')) \<and>
   trace (snd (submitVote example_validators 60000 example_poll_id (Integer 0)
      (example_server\<lparr>poll_rateLimit := exhausted ''submit-vote-bob'', trace := []\<rparr>))) =
     [Validate VoteSchema True, Backend AuthGetUser, RateLimit ''submit-vote-bob'' False] \<and>
   fst (submitVote example_validators 60000 example_poll_id (Integer 0)
      (example_server\<lparr>poll_rateLimit := exhausted ''submit-vote-bob'', trace := []\<rparr>)) =
     Message ''Too many voting attempts. Please try again later.'' \<and>
   polls (snd (submitVote example_validators 60000 example_poll_id (Integer 0)
      (example_server\<lparr>poll_rateLimit := exhausted ''submit-vote-bob'', trace := []\<rparr>))) = [example_poll] \<and>
   votes (snd (submitVote example_validators 60000 example_poll_id (Integer 0)
      (example_server\<lparr>poll_rateLimit := exhausted ''submit-vote-bob'', trace := []\<rparr>))) = [example_vote]"
proof -
  let ?s = "example_server\<lparr>poll_rateLimit := exhausted ''submit-vote-bob''\<rparr>"
  let ?res = "submitVote example_validators 60000 example_poll_id (Integer 0) (?s\<lparr>trace := []\<rparr>)"
  have k: "rateLimitKey ''submit-vote'' (current_user ?s) = ''submit-vote-bob''"
    by (simp add: rateLimitKey_def example_current_user)
  have v: "\<not> isl (voteSchema_safeParse example_validators example_poll_id (Integer 0))"
    by (simp add: voteSchema_safeParse_valid example_uuid)
  have d: "\<not> fst (checkRateLimit 60000 ''submit-vote-bob'' (exhausted ''submit-vote-bob''))"
    by (rule exhausted_denies)
  have r: "poll_rateLimit ?s = exhausted ''submit-vote-bob''"
    by simp
  note g = rate_limit_gate_order [where s = ?s and V = example_validators and now = 60000
      and pollId = example_poll_id and optionIndex = "Integer 0",
      THEN conjunct2, THEN conjunct2, THEN conjunct2, THEN conjunct1, rule_format, OF v,
      unfolded k r gate_holds_def]
  note out = g [THEN conjunct2, rule_format, OF d]
  have kb: "rateLimitKey ''submit-vote'' (Some ''bob'') = ''submit-vote-bob''"
    by (simp add: rateLimitKey_def)
  have t: "trace (snd ?res) = [Validate VoteSchema True, Backend AuthGetUser, RateLimit ''submit-vote-bob'' False]"
    using d
    by (simp add: submitVote_def voteSchema_safeParse_valid example_uuid step_defs kb example_current_user)
  have p: "polls ?s = [example_poll]" and w: "votes ?s = [example_vote]"
    by (simp_all add: example_server_def)
  from v d t out [THEN conjunct1] out [THEN conjunct2, THEN conjunct1, unfolded p]
    out [THEN conjunct2, THEN conjunct2, unfolded w]
  show ?thesis
    by (intro conjI)
qed

subsection \<open>Rejection of an invalid poll form (C3)\<close>

text \<open>
  C3. What the code does with a question shorter than five characters: when the rate
  limiter allows the call, \<open>createPoll\<close> does not return an error object; the error of
  \<^verbatim>\<open>pollSchema.parse\<close> is thrown out of the action. (A question of five characters with
  two valid options is accepted: \<open>pollSchema_parse_accepts\<close>,
  \<open>createPoll_five_characters_accepted\<close>.)
\<close>

theorem createPoll_short_question_throws:
  assumes "fst (checkRateLimit now (rateLimitKey ''create-poll'' (current_user s)) (poll_rateLimit s))"
    and "formData_get formData ''question'' = Some (Text q)"
    and "length q < 5"
  shows "fst (createPoll now formData s) =
      Thrown (Issue [Key ''question''] ''Question must be at least 5 characters long'' #
              options_issues (filter truthy (formData_getAll formData ''options'')))"
  using assms
  by (simp add: createPoll_def step_defs pollSchema_parse_def question_issues_def check_def)

theorem createPoll_short_question_throws_witness:
  "fst (checkRateLimit 0 (rateLimitKey ''create-poll'' (current_user example_server)) (poll_rateLimit example_server)) \<and>
   formData_get (example_form ''Tea?'') ''question'' = Some (Text ''Tea?'') \<and>
   length ''Tea?'' < 5 \<and>
   fst (createPoll 0 (example_form ''Tea?'') example_server) =
     Thrown [Issue [Key ''question''] ''Question must be at least 5 characters long'']"
proof -
  have g: "fst (checkRateLimit 0 (rateLimitKey ''create-poll'' (current_user example_server)) (poll_rateLimit example_server))"
    by (rule example_gate)
  have q: "formData_get (example_form ''Tea?'') ''question'' = Some (Text ''Tea?'')"
    by (simp add: formData_get_def example_form_def)
  have l: "length ''Tea?'' < 5"
    by simp
  have o: "options_issues (filter truthy (formData_getAll (example_form ''Tea?'') ''options'')) = []"
    by (simp add: formData_getAll_def example_form_def options_issues_def option_issues_def check_def
        enumerate_eq_zip upt_rec)
  from createPoll_short_question_throws [OF g q l] o
  have "fst (createPoll 0 (example_form ''Tea?'') example_server) =
     Thrown [Issue [Key ''question''] ''Question must be at least 5 characters long'']"
    by simp
  with g q l show ?thesis
    by (intro conjI)
qed

lemma createPoll_accepts:
  assumes "fst (checkRateLimit now (rateLimitKey ''create-poll'' (Some uid)) (poll_rateLimit s))"
    and "fault s AuthGetUser = None" and "session_user s = Some uid" and "fault s PollsInsert = None"
    and "pollSchema_parse (formData_get formData ''question'')
           (filter truthy (formData_getAll formData ''options'')) = Inr input"
  shows "fst (createPoll now formData s) = Returned Null"
    and "polls (snd (createPoll now formData s)) =
      polls s @ [\<lparr>poll_id = new_id s (inserted s), poll_user_id = uid,
                  poll_question = input_question input, poll_options = input_options input\<rparr>]"
  using assms current_user_session [of s]
  by (simp_all add: createPoll_def step_defs)

lemma createPoll_five_characters_accepted:
  "fst (createPoll 0 (example_form ''Teas?'') example_server) = Returned Null"
proof -
  have p: "pollSchema_parse (formData_get (example_form ''Teas?'') ''question'')
           (filter truthy (formData_getAll (example_form ''Teas?'') ''options'')) =
        Inr \<lparr>input_question = trim ''Teas?'', input_options = [trim ''tea'', trim ''coffee'']\<rparr>"
    by (simp add: formData_get_def formData_getAll_def example_form_def pollSchema_parse_accepts)
  show ?thesis
    by (rule createPoll_accepts(1) [OF example_gate _ _ _ p]) (simp_all add: example_server_def)
qed

lemma updatePoll_short_question_throws:
  assumes "is_uuid V pollId"
    and "fst (checkRateLimit now (rateLimitKey ''update-poll'' (current_user s)) (poll_rateLimit s))"
    and "formData_get formData ''question'' = Some (Text q)"
    and "length q < 5"
  shows "fst (updatePoll V now pollId formData s) =
      Thrown (Issue [Key ''question''] ''Question must be at least 5 characters long'' #
              options_issues (filter truthy (formData_getAll formData ''options'')))"
  using assms
  by (simp add: updatePoll_def idSchema_safeParse_valid step_defs pollSchema_parse_def question_issues_def check_def)

lemma untrimmed_length_counts:
  "pollSchema_parse (Some (Text ''Tea? '')) [Text ''a'', Text ''b''] =
     Inr \<lparr>input_question = ''Tea?'', input_options = [''a'', ''b'']\<rparr>"
  by (simp add: pollSchema_parse_accepts trim_def is_space_def)

subsection \<open>Errors reported by the backend (C4)\<close>

text \<open>
  C4. What the code does when the authentication backend reports an error \<open>e\<close> for
  \<^verbatim>\<open>auth.getUser()\<close>: \<open>createPoll\<close> (given a valid form) and \<open>deletePoll\<close> (given a
  valid identifier), once past the rate limiter, return the backend's own message
  \<open>message e\<close> as the error string, and write nothing to the log. (Errors of the table
  operations are logged and replaced by a fixed message: \<open>table_error_generic\<close>.)
\<close>

theorem auth_error_message_returned:
  assumes "fault s AuthGetUser = Some e"
  shows "(fst (checkRateLimit now (rateLimitKey ''create-poll'' None) (poll_rateLimit s)) \<and>
          pollSchema_parse (formData_get formData ''question'')
            (filter truthy (formData_getAll formData ''options'')) = Inr input \<longrightarrow>
            fst (createPoll now formData s) = Returned (Message (message e)) \<and>
            trace (snd (createPoll now formData s)) =
              trace s @ [Backend AuthGetUser, RateLimit (rateLimitKey ''create-poll'' None) True,
                         Validate PollSchema True, Backend AuthGetUser]) \<and>
         (fst (checkRateLimit now (rateLimitKey ''delete-poll'' None) (poll_rateLimit s)) \<and> is_uuid V ident \<longrightarrow>
            fst (deletePoll V now ident s) = Message (message e) \<and>
            trace (snd (deletePoll V now ident s)) =
              trace s @ [Validate IdSchema True, Backend AuthGetUser,
                         RateLimit (rateLimitKey ''delete-poll'' None) True])"
proof (intro conjI impI)
  note u = current_user_fault [OF assms]
  assume h: "fst (checkRateLimit now (rateLimitKey ''create-poll'' None) (poll_rateLimit s)) \<and>
          pollSchema_parse (formData_get formData ''question'')
            (filter truthy (formData_getAll formData ''options'')) = Inr input"
  show "fst (createPoll now formData s) = Returned (Message (message e))"
    using assms h u by (simp add: createPoll_def step_defs)
  show "trace (snd (createPoll now formData s)) =
              trace s @ [Backend AuthGetUser, RateLimit (rateLimitKey ''create-poll'' None) True,
                         Validate PollSchema True, Backend AuthGetUser]"
    using assms h u by (simp add: createPoll_def step_defs)
next
  note u = current_user_fault [OF assms]
  assume h: "fst (checkRateLimit now (rateLimitKey ''delete-poll'' None) (poll_rateLimit s)) \<and> is_uuid V ident"
  show "fst (deletePoll V now ident s) = Message (message e)"
    using assms h u by (simp add: deletePoll_def idSchema_safeParse_valid step_defs)
  show "trace (snd (deletePoll V now ident s)) =
              trace s @ [Validate IdSchema True, Backend AuthGetUser,
                         RateLimit (rateLimitKey ''delete-poll'' None) True]"
    using assms h u by (simp add: deletePoll_def idSchema_safeParse_valid step_defs)
qed

theorem auth_error_message_returned_witness:
  "fault (example_server\<lparr>session_user := None, fault := (\<lambda>b. None)(AuthGetUser \<mapsto> session_missing)\<rparr>) AuthGetUser
     = Some session_missing \<and>
   fst (createPoll 0 (example_form ''Tea or coffee?'')
     (example_server\<lparr>session_user := None, fault := (\<lambda>b. None)(AuthGetUser \<mapsto> session_missing)\<rparr>)) =
     Returned (Message ''Auth session missing!'') \<and>
   fst (deletePoll example_validators 0 example_poll_id
     (example_server\<lparr>session_user := None, fault := (\<lambda>b. None)(AuthGetUser \<mapsto> session_missing)\<rparr>)) =
     Message ''Auth session missing!''"
proof -
  let ?s = "example_server\<lparr>session_user := None, fault := (\<lambda>b. None)(AuthGetUser \<mapsto> session_missing)\<rparr>"
  have f: "fault ?s AuthGetUser = Some session_missing"
    by simp
  have g: "fst (checkRateLimit 0 key (poll_rateLimit ?s))" for key
    using example_gate [of 0 key] by simp
  have p: "pollSchema_parse (formData_get (example_form ''Tea or coffee?'') ''question'')
           (filter truthy (formData_getAll (example_form ''Tea or coffee?'') ''options'')) =
        Inr \<lparr>input_question = trim ''Tea or coffee?'', input_options = [trim ''tea'', trim ''coffee'']\<rparr>"
    by (simp add: formData_get_def formData_getAll_def example_form_def pollSchema_parse_accepts)
  have m: "message session_missing = ''Auth session missing!''"
    by (simp add: session_missing_def)
  note inst = auth_error_message_returned [OF f, where now = 0 and formData = "example_form ''Tea or coffee?''"
      and V = example_validators and ident = example_poll_id]
  from inst g p have c: "fst (createPoll 0 (example_form ''Tea or coffee?'') ?s) = Returned (Message (message session_missing))"
    by blast
  from inst g example_uuid have d: "fst (deletePoll example_validators 0 example_poll_id ?s) = Message (message session_missing)"
    by blast
  from f c d show ?thesis
    unfolding m by (intro conjI)
qed

lemma table_error_generic:
  assumes "fault s PollsInsert = Some e" and "fault s AuthGetUser = None" and "session_user s = Some uid"
    and "fst (checkRateLimit now (rateLimitKey ''create-poll'' (Some uid)) (poll_rateLimit s))"
    and "pollSchema_parse (formData_get formData ''question'')
           (filter truthy (formData_getAll formData ''options'')) = Inr input"
  shows "fst (createPoll now formData s) = Returned (Message ''Failed to create poll. Please try again.'')"
    and "last (trace (snd (createPoll now formData s))) = ConsoleError ''Error creating poll:'' (Some e)"
  using assms current_user_session [of s]
  by (simp_all add: createPoll_def step_defs)

lemma updatePoll_auth_error_message:
  assumes "fault s AuthGetUser = Some e" and "is_uuid V pollId"
    and "fst (checkRateLimit now (rateLimitKey ''update-poll'' None) (poll_rateLimit s))"
    and "pollSchema_parse (formData_get formData ''question'')
            (filter truthy (formData_getAll formData ''options'')) = Inr input"
  shows "fst (updatePoll V now pollId formData s) = Returned (Message (message e))"
  using assms current_user_fault [OF assms(1)]
  by (simp add: updatePoll_def idSchema_safeParse_valid step_defs)

subsection \<open>Votes: duplicate guard (C5)\<close>

lemma submitVote_to_range_check:
  assumes "is_uuid V pollId" and "0 \<le> n"
    and "fst (checkRateLimit now (rateLimitKey ''submit-vote'' (current_user s)) (poll_rateLimit s))"
    and "fault s PollsSelect = None"
    and "filter (\<lambda>q. poll_id q = pollId) (polls s) = [p]"
    and "n \<ge> int (length (poll_options p))"
  shows "submitVote V now pollId (Integer n) s =
      (Message ''Invalid option selected.'',
       s\<lparr>poll_rateLimit := snd (checkRateLimit now (rateLimitKey ''submit-vote'' (current_user s)) (poll_rateLimit s)),
         trace := trace s @ [Validate VoteSchema True, Backend AuthGetUser,
                   RateLimit (rateLimitKey ''submit-vote'' (current_user s)) True,
                   Query PollsSelect [(Col_id, pollId)]]\<rparr>)"
  using assms
  by (simp add: submitVote_def voteSchema_safeParse_valid step_defs)

lemma submitVote_past_range_check:
  assumes "is_uuid V pollId" and "0 \<le> n"
    and "fst (checkRateLimit now (rateLimitKey ''submit-vote'' (current_user s)) (poll_rateLimit s))"
    and "fault s PollsSelect = None"
    and "filter (\<lambda>q. poll_id q = pollId) (polls s) = [p]"
    and "n < int (length (poll_options p))"
  shows "fst (submitVote V now pollId (Integer n) s) \<in>
      {Null, Message ''You have already voted on this poll.'', Message ''Failed to check for existing vote.'',
       Message ''Failed to submit vote. Please try again.''}"
  using assms
  by (simp add: submitVote_def voteSchema_safeParse_valid step_defs split: option.splits list.splits)

text \<open>
  C5 as stated fails: the range check comes before the duplicate check, so a caller who
  has voted on the poll gets the out-of-range error, not the duplicate error, for an
  index beyond the poll's options.
\<close>

theorem submitVote_voted_out_of_range:
  "filter (\<lambda>v. vote_poll_id v = example_poll_id \<and> vote_user_id v = Some ''bob'') (votes example_server) = [example_vote] \<and>
   session_user example_server = Some ''bob'' \<and>
   fst (submitVote example_validators 0 example_poll_id (Integer 2) example_server) = Message ''Invalid option selected.''"
proof (intro conjI)
  show "filter (\<lambda>v. vote_poll_id v = example_poll_id \<and> vote_user_id v = Some ''bob'') (votes example_server) = [example_vote]"
    by (rule example_votes_bob)
  show "session_user example_server = Some ''bob''"
    by (simp add: example_server_def)
  have "int (length (poll_options example_poll)) \<le> 2"
    by (simp add: example_poll_def)
  from submitVote_to_range_check [OF example_uuid _ example_gate _ example_polls this]
  show "fst (submitVote example_validators 0 example_poll_id (Integer 2) example_server) = Message ''Invalid option selected.''"
    by simp
qed

text \<open>
  C5, as amended. Take a vote that passes schema validation, the rate limiter, the fetch of
  the poll and the range check (\<open>0 \<le> n < length options\<close>), cast by the authenticated
  user \<open>uid\<close>. If the votes table holds exactly one vote of \<open>uid\<close> on that poll, the
  result is the duplicate error and no vote is inserted. If it holds none and neither the
  check nor the insert fails, the action succeeds and appends the vote of \<open>uid\<close>: so a
  second user can vote on a poll the first has voted on. If the check for an existing
  vote fails with an error whose code is not \<^verbatim>\<open>PGRST116\<close>, the result is the
  retrieval-failure error and no vote is inserted.
\<close>

theorem submitVote_duplicate_guard:
  assumes "is_uuid V pollId" and "0 \<le> n"
    and "fault s AuthGetUser = None"
    and "fault s PollsSelect = None"
    and "filter (\<lambda>q. poll_id q = pollId) (polls s) = [p]"
    and "n < int (length (poll_options p))"
    and "fst (checkRateLimit now (rateLimitKey ''submit-vote'' (Some uid)) (poll_rateLimit s))"
  shows "(fault s VotesSelect = None \<and>
          filter (\<lambda>v. vote_poll_id v = pollId \<and> vote_user_id v = Some uid) (votes s) = [v] \<longrightarrow>
            fst (submitVote V now pollId (Integer n) (s\<lparr>session_user := Some uid\<rparr>)) =
              Message ''You have already voted on this poll.'' \<and>
            votes (snd (submitVote V now pollId (Integer n) (s\<lparr>session_user := Some uid\<rparr>))) = votes s) \<and>
         (fault s VotesSelect = None \<and> fault s VotesInsert = None \<and>
          filter (\<lambda>v. vote_poll_id v = pollId \<and> vote_user_id v = Some uid) (votes s) = [] \<longrightarrow>
            fst (submitVote V now pollId (Integer n) (s\<lparr>session_user := Some uid\<rparr>)) = Null \<and>
            votes (snd (submitVote V now pollId (Integer n) (s\<lparr>session_user := Some uid\<rparr>))) =
              votes s @ [\<lparr>vote_id = new_id s (inserted s), vote_poll_id = pollId,
                          vote_user_id = Some uid, vote_option_index = n\<rparr>]) \<and>
         (fault s VotesSelect = Some e \<and> code e \<noteq> ''PGRST116'' \<longrightarrow>
            fst (submitVote V now pollId (Integer n) (s\<lparr>session_user := Some uid\<rparr>)) =
              Message ''Failed to check for existing vote.'' \<and>
            votes (snd (submitVote V now pollId (Integer n) (s\<lparr>session_user := Some uid\<rparr>))) = votes s)"
proof (intro conjI impI)
  assume h: "fault s VotesSelect = None \<and>
          filter (\<lambda>v. vote_poll_id v = pollId \<and> vote_user_id v = Some uid) (votes s) = [v]"
  show "fst (submitVote V now pollId (Integer n) (s\<lparr>session_user := Some uid\<rparr>)) =
              Message ''You have already voted on this poll.''"
    using assms h by (simp add: submitVote_def voteSchema_safeParse_valid step_defs)
  show "votes (snd (submitVote V now pollId (Integer n) (s\<lparr>session_user := Some uid\<rparr>))) = votes s"
    using assms h by (simp add: submitVote_def voteSchema_safeParse_valid step_defs)
next
  assume h: "fault s VotesSelect = None \<and> fault s VotesInsert = None \<and>
          filter (\<lambda>v. vote_poll_id v = pollId \<and> vote_user_id v = Some uid) (votes s) = []"
  show "fst (submitVote V now pollId (Integer n) (s\<lparr>session_user := Some uid\<rparr>)) = Null"
    using assms h by (simp add: submitVote_def voteSchema_safeParse_valid step_defs PGRST116_def)
  show "votes (snd (submitVote V now pollId (Integer n) (s\<lparr>session_user := Some uid\<rparr>))) =
              votes s @ [\<lparr>vote_id = new_id s (inserted s), vote_poll_id = pollId,
                          vote_user_id = Some uid, vote_option_index = n\<rparr>]"
    using assms h by (simp add: submitVote_def voteSchema_safeParse_valid step_defs PGRST116_def)
next
  assume h: "fault s VotesSelect = Some e \<and> code e \<noteq> ''PGRST116''"
  show "fst (submitVote V now pollId (Integer n) (s\<lparr>session_user := Some uid\<rparr>)) =
              Message ''Failed to check for existing vote.''"
    using assms h by (simp add: submitVote_def voteSchema_safeParse_valid step_defs)
  show "votes (snd (submitVote V now pollId (Integer n) (s\<lparr>session_user := Some uid\<rparr>))) = votes s"
    using assms h by (simp add: submitVote_def voteSchema_safeParse_valid step_defs)
qed

theorem submitVote_duplicate_guard_witness:
  "fst (submitVote example_validators 0 example_poll_id (Integer 1) (example_server\<lparr>session_user := Some ''bob''\<rparr>)) =
     Message ''You have already voted on this poll.'' \<and>
   votes (snd (submitVote example_validators 0 example_poll_id (Integer 1) (example_server\<lparr>session_user := Some ''bob''\<rparr>))) =
     votes example_server \<and>
   fst (submitVote example_validators 0 example_poll_id (Integer 1) (example_server\<lparr>session_user := Some ''carol''\<rparr>)) = Null \<and>
   votes (snd (submitVote example_validators 0 example_poll_id (Integer 1) (example_server\<lparr>session_user := Some ''carol''\<rparr>))) =
     votes example_server @ [\<lparr>vote_id = new_id example_server (inserted example_server), vote_poll_id = example_poll_id,
        vote_user_id = Some ''carol'', vote_option_index = 1\<rparr>]"
proof -
  have n: "(1::int) < int (length (poll_options example_poll))"
    by (simp add: example_poll_def)
  have z: "(0::int) \<le> 1"
    by simp
  note bob = submitVote_duplicate_guard [OF example_uuid z example_fault example_fault example_polls n example_gate,
      where uid = "''bob''" and v = example_vote, THEN conjunct1, rule_format]
  note carol = submitVote_duplicate_guard [OF example_uuid z example_fault example_fault example_polls n example_gate,
      where uid = "''carol''", THEN conjunct2, THEN conjunct1, rule_format]
  have b: "fault example_server VotesSelect = None \<and>
      filter (\<lambda>v. vote_poll_id v = example_poll_id \<and> vote_user_id v = Some ''bob'') (votes example_server) = [example_vote]"
    by (simp add: example_votes_bob)
  have c: "fault example_server VotesSelect = None \<and> fault example_server VotesInsert = None \<and>
      filter (\<lambda>v. vote_poll_id v = example_poll_id \<and> vote_user_id v = Some ''carol'') (votes example_server) = []"
    by (simp add: example_votes_carol)
  note voted = bob [OF b, where now = 0]
  note fresh = carol [OF c, where now = 0]
  show ?thesis
    by (intro conjI voted [THEN conjunct1] voted [THEN conjunct2] fresh [THEN conjunct1] fresh [THEN conjunct2])
qed

subsection \<open>Votes: range of the option index (C6)\<close>

text \<open>
  C6. For a vote that reaches the range check (valid poll identifier, rate limiter allows,
  exactly one poll \<open>p\<close> with that identifier, fetched without error) and a poll with at
  least one option: \<open>optionIndex\<close> equal to the number of options of \<open>p\<close> is rejected
  with the out-of-range error, and \<open>optionIndex\<close> one less passes the range check, so that
  the result is one of the results of the later steps.
\<close>

theorem submitVote_option_index_bounds:
  assumes "is_uuid V pollId"
    and "fst (checkRateLimit now (rateLimitKey ''submit-vote'' (current_user s)) (poll_rateLimit s))"
    and "fault s PollsSelect = None"
    and "filter (\<lambda>q. poll_id q = pollId) (polls s) = [p]"
    and "poll_options p \<noteq> []"
  shows "fst (submitVote V now pollId (Integer (int (length (poll_options p)))) s) = Message ''Invalid option selected.'' \<and>
         fst (submitVote V now pollId (Integer (int (length (poll_options p)) - 1)) s) \<in>
           {Null, Message ''You have already voted on this poll.'', Message ''Failed to check for existing vote.'',
            Message ''Failed to submit vote. Please try again.''}"
proof
  show "fst (submitVote V now pollId (Integer (int (length (poll_options p)))) s) = Message ''Invalid option selected.''"
    using submitVote_to_range_check [OF assms(1) _ assms(2,3,4), of "int (length (poll_options p))"]
    by simp
  have "0 \<le> int (length (poll_options p)) - 1"
    using assms(5) by (cases "poll_options p") simp_all
  then show "fst (submitVote V now pollId (Integer (int (length (poll_options p)) - 1)) s) \<in>
           {Null, Message ''You have already voted on this poll.'', Message ''Failed to check for existing vote.'',
            Message ''Failed to submit vote. Please try again.''}"
    using submitVote_past_range_check [OF assms(1) _ assms(2,3,4), of "int (length (poll_options p)) - 1"]
    by simp
qed

theorem submitVote_option_index_bounds_witness:
  "is_uuid example_validators example_poll_id \<and>
   filter (\<lambda>q. poll_id q = example_poll_id) (polls example_server) = [example_poll] \<and>
   poll_options example_poll \<noteq> [] \<and>
   int (length (poll_options example_poll)) = 2 \<and>
   fst (submitVote example_validators 0 example_poll_id (Integer 2) (example_server\<lparr>session_user := Some ''carol''\<rparr>)) =
     Message ''Invalid option selected.'' \<and>
   fst (submitVote example_validators 0 example_poll_id (Integer 1) (example_server\<lparr>session_user := Some ''carol''\<rparr>)) \<in>
     {Null, Message ''You have already voted on this poll.'', Message ''Failed to check for existing vote.'',
      Message ''Failed to submit vote. Please try again.''}"
proof -
  let ?s = "example_server\<lparr>session_user := Some ''carol''\<rparr>"
  have g: "fst (checkRateLimit 0 (rateLimitKey ''submit-vote'' (current_user ?s)) (poll_rateLimit ?s))"
    using example_gate [of 0 "rateLimitKey ''submit-vote'' (current_user ?s)"] by simp
  have f: "fault ?s PollsSelect = None"
    by simp
  have p: "filter (\<lambda>q. poll_id q = example_poll_id) (polls ?s) = [example_poll]"
    using example_polls by simp
  have o: "poll_options example_poll \<noteq> []"
    by (simp add: example_poll_def)
  have l: "int (length (poll_options example_poll)) = 2"
    by (simp add: example_poll_def)
  note inst = submitVote_option_index_bounds [OF example_uuid g f p o]
  have a: "fst (submitVote example_validators 0 example_poll_id (Integer 2) ?s) = Message ''Invalid option selected.''"
    using inst [THEN conjunct1] unfolding l .
  have b: "fst (submitVote example_validators 0 example_poll_id (Integer 1) ?s) \<in>
     {Null, Message ''You have already voted on this poll.'', Message ''Failed to check for existing vote.'',
      Message ''Failed to submit vote. Please try again.''}"
    using inst [THEN conjunct2] unfolding l by simp
  from example_uuid example_polls o l a b show ?thesis
    by (intro conjI)
qed

subsection \<open>Deleting a poll: owner check (C7)\<close>

text \<open>
  C7. Take a syntactically valid identifier, an authenticated caller \<open>uid\<close> whom the rate
  limiter allows, and a store in which exactly one poll \<open>p\<close> has that identifier and the
  lookup does not fail. If the caller is not the poll's owner, \<open>deletePoll\<close> returns the
  authorization error, the polls table is unchanged and the trace ends with the lookup: no
  delete is issued. If the caller is the owner and the delete does not fail, \<open>deletePoll\<close>
  returns no error and issues, after the lookup, one delete whose filters are
  \<^verbatim>\<open>id\<close> = the identifier and \<^verbatim>\<open>user_id\<close> = the caller (the trace records the filters
  of each table call), after which no poll with that identifier is left. A delete with
  these two filters, run on any store, leaves every poll that is not the caller's.
\<close>

theorem deletePoll_owner_check:
  assumes "is_uuid V ident"
    and "fault s AuthGetUser = None"
    and "session_user s = Some uid"
    and "fst (checkRateLimit now (rateLimitKey ''delete-poll'' (Some uid)) (poll_rateLimit s))"
    and "fault s PollsSelect = None"
    and "filter (\<lambda>q. poll_id q = ident) (polls s) = [p]"
  shows "(poll_user_id p \<noteq> uid \<longrightarrow>
           fst (deletePoll V now ident s) = Message ''You are not authorized to delete this poll.'' \<and>
           polls (snd (deletePoll V now ident s)) = polls s \<and>
           trace (snd (deletePoll V now ident s)) =
             trace s @ [Validate IdSchema True, Backend AuthGetUser,
                        RateLimit (rateLimitKey ''delete-poll'' (Some uid)) True,
                        Query PollsSelect [(Col_id, ident)]]) \<and>
         (poll_user_id p = uid \<and> fault s PollsDelete = None \<longrightarrow>
           fst (deletePoll V now ident s) = Null \<and>
           polls (snd (deletePoll V now ident s)) =
             filter (\<lambda>q. \<not> (poll_id q = ident \<and> poll_user_id q = uid)) (polls s) \<and>
           (\<forall>q. q \<in> set (polls (snd (deletePoll V now ident s))) \<longrightarrow> poll_id q \<noteq> ident) \<and>
           trace (snd (deletePoll V now ident s)) =
             trace s @ [Validate IdSchema True, Backend AuthGetUser,
                        RateLimit (rateLimitKey ''delete-poll'' (Some uid)) True,
                        Query PollsSelect [(Col_id, ident)],
                        Query PollsDelete [(Col_id, ident), (Col_user_id, uid)], Revalidate ''/polls'']) \<and>
         (\<forall>s' q. q \<in> set (polls s') \<and> poll_user_id q \<noteq> uid \<longrightarrow>
            q \<in> set (polls (snd (from_polls_delete [(Col_id, ident), (Col_user_id, uid)] s'))))"
proof (intro conjI impI)
  assume other: "poll_user_id p \<noteq> uid"
  show "fst (deletePoll V now ident s) = Message ''You are not authorized to delete this poll.''"
    using assms other
    by (simp add: deletePoll_def idSchema_safeParse_valid backend_defs single_data_def single_error_def)
  show "polls (snd (deletePoll V now ident s)) = polls s"
    using assms other
    by (simp add: deletePoll_def idSchema_safeParse_valid backend_defs single_data_def single_error_def)
  show "trace (snd (deletePoll V now ident s)) =
             trace s @ [Validate IdSchema True, Backend AuthGetUser,
                        RateLimit (rateLimitKey ''delete-poll'' (Some uid)) True,
                        Query PollsSelect [(Col_id, ident)]]"
    using assms other
    by (simp add: deletePoll_def idSchema_safeParse_valid backend_defs single_data_def single_error_def)
next
  assume own: "poll_user_id p = uid \<and> fault s PollsDelete = None"
  show r: "fst (deletePoll V now ident s) = Null"
    using assms own
    by (simp add: deletePoll_def idSchema_safeParse_valid backend_defs single_data_def single_error_def)
  show d: "polls (snd (deletePoll V now ident s)) =
             filter (\<lambda>q. \<not> (poll_id q = ident \<and> poll_user_id q = uid)) (polls s)"
    using assms own
    by (simp add: deletePoll_def idSchema_safeParse_valid backend_defs single_data_def single_error_def)
  show "trace (snd (deletePoll V now ident s)) =
             trace s @ [Validate IdSchema True, Backend AuthGetUser,
                        RateLimit (rateLimitKey ''delete-poll'' (Some uid)) True,
                        Query PollsSelect [(Col_id, ident)],
                        Query PollsDelete [(Col_id, ident), (Col_user_id, uid)], Revalidate ''/polls'']"
    using assms own
    by (simp add: deletePoll_def idSchema_safeParse_valid backend_defs single_data_def single_error_def)
  show "\<forall>q. q \<in> set (polls (snd (deletePoll V now ident s))) \<longrightarrow> poll_id q \<noteq> ident"
  proof (intro allI impI)
    fix q
    assume "q \<in> set (polls (snd (deletePoll V now ident s)))"
    then have q: "q \<in> set (polls s)" and n: "\<not> (poll_id q = ident \<and> poll_user_id q = uid)"
      by (simp_all add: d)
    show "poll_id q \<noteq> ident"
    proof
      assume e: "poll_id q = ident"
      with q have "q \<in> set (filter (\<lambda>q. poll_id q = ident) (polls s))"
        by simp
      then have "q = p"
        by (simp add: assms(6))
      with own n e show False
        by simp
    qed
  qed
next
  show "\<forall>s' q. q \<in> set (polls s') \<and> poll_user_id q \<noteq> uid \<longrightarrow>
      q \<in> set (polls (snd (from_polls_delete [(Col_id, ident), (Col_user_id, uid)] s')))"
    by (simp add: from_polls_delete_def emit_def poll_where_id_owner split: option.splits)
qed

theorem deletePoll_owner_check_witness:
  "poll_user_id example_poll \<noteq> ''bob'' \<and>
   fst (deletePoll example_validators 0 example_poll_id example_server) =
     Message ''You are not authorized to delete this poll.'' \<and>
   polls (snd (deletePoll example_validators 0 example_poll_id example_server)) = polls example_server \<and>
   poll_user_id example_poll = ''alice'' \<and>
   fst (deletePoll example_validators 0 example_poll_id (example_server\<lparr>session_user := Some ''alice''\<rparr>)) = Null \<and>
   polls (snd (deletePoll example_validators 0 example_poll_id (example_server\<lparr>session_user := Some ''alice''\<rparr>))) = [] \<and>
   trace (snd (deletePoll example_validators 0 example_poll_id (example_server\<lparr>session_user := Some ''alice''\<rparr>))) =
     [Validate IdSchema True, Backend AuthGetUser, RateLimit (rateLimitKey ''delete-poll'' (Some ''alice'')) True,
      Query PollsSelect [(Col_id, example_poll_id)],
      Query PollsDelete [(Col_id, example_poll_id), (Col_user_id, ''alice'')], Revalidate ''/polls'']"
proof -
  let ?s = "example_server\<lparr>session_user := Some ''alice''\<rparr>"
  have nb: "poll_user_id example_poll \<noteq> ''bob''" and al: "poll_user_id example_poll = ''alice''"
    by (simp_all add: example_poll_def)
  have sb: "session_user example_server = Some ''bob''"
    by (simp add: example_server_def)
  note bob = deletePoll_owner_check [OF example_uuid example_fault sb example_gate example_fault example_polls,
      where now = 0, THEN conjunct1, rule_format, OF nb]
  have fa: "fault ?s AuthGetUser = None" and fs: "fault ?s PollsSelect = None" and fd: "fault ?s PollsDelete = None"
    by simp_all
  have sa: "session_user ?s = Some ''alice''"
    by simp
  have ga: "fst (checkRateLimit 0 (rateLimitKey ''delete-poll'' (Some ''alice'')) (poll_rateLimit ?s))"
    using example_gate [of 0 "rateLimitKey ''delete-poll'' (Some ''alice'')"] by simp
  have pa: "filter (\<lambda>q. poll_id q = example_poll_id) (polls ?s) = [example_poll]"
    using example_polls by simp
  have own: "poll_user_id example_poll = ''alice'' \<and> fault ?s PollsDelete = None"
    using al fd by (rule conjI)
  note alice = deletePoll_owner_check [OF example_uuid fa sa ga fs pa, THEN conjunct2, THEN conjunct1,
      rule_format, OF own]
  have tr: "trace ?s = []"
    by (simp add: example_server_def)
  note calls = alice [THEN conjunct2, THEN conjunct2, THEN conjunct2, unfolded tr append_Nil]
  have e: "filter (\<lambda>q. \<not> (poll_id q = example_poll_id \<and> poll_user_id q = ''alice'')) (polls ?s) = []"
    by (simp add: example_server_def example_poll_def)
  have d: "polls (snd (deletePoll example_validators 0 example_poll_id ?s)) = []"
    using alice [THEN conjunct2, THEN conjunct1] unfolding e .
  from nb bob [THEN conjunct1] bob [THEN conjunct2, THEN conjunct1] al alice [THEN conjunct1] d calls
  show ?thesis
    by (intro conjI)
qed

lemma deletePoll_anonymous:
  assumes "is_uuid V ident" and "fault s AuthGetUser = None" and "session_user s = None"
    and "fst (checkRateLimit now (rateLimitKey ''delete-poll'' None) (poll_rateLimit s))"
  shows "fst (deletePoll V now ident s) = Message ''You must be logged in to delete a poll.''"
    and "polls (snd (deletePoll V now ident s)) = polls s"
  using assms current_user_session [of s]
  by (simp_all add: deletePoll_def idSchema_safeParse_valid step_defs)

lemma deletePoll_removes_only_own:
  "polls (snd (deletePoll V now ident s)) = polls s \<or>
   (\<exists>uid. current_user s = Some uid \<and> fst (deletePoll V now ident s) = Null \<and>
      polls (snd (deletePoll V now ident s)) =
        filter (\<lambda>q. \<not> (poll_id q = ident \<and> poll_user_id q = uid)) (polls s))"
  by (auto simp: deletePoll_def idSchema_safeParse_def check_def step_defs split: sum.splits option.splits)

subsection \<open>Result of a failed validation (C8)\<close>

text \<open>
  C8. What the code does when an object schema rejects its input: the issues of
  \<open>loginSchema\<close>, \<open>registerSchema\<close> and \<open>voteSchema\<close> all lie on a field, so
  \<open>formErrors\<close> is empty and \<^verbatim>\<open>formErrors[0]\<close> is \<^verbatim>\<open>undefined\<close>: \<open>login\<close>,
  \<open>register\<close> and \<open>submitVote\<close> return \<^verbatim>\<open>{ error: undefined }\<close>, not the first
  validation message. (Only the identifier schema, which validates a bare string, yields
  its message: \<open>id_validation_error_message\<close>.)
\<close>

theorem field_validation_error_undefined:
  "(fst (checkRateLimit now (''login-'' @ email d) (auth_rateLimit s)) \<and>
    loginSchema_safeParse V d = Inl issues \<longrightarrow> fst (login V now d s) = Undefined) \<and>
   (fst (checkRateLimit now (''register-'' @ email r) (auth_rateLimit s)) \<and>
    registerSchema_safeParse V r = Inl issues \<longrightarrow> fst (register V now r s) = Undefined) \<and>
   (voteSchema_safeParse V pollId optionIndex = Inl issues \<longrightarrow>
      fst (submitVote V now pollId optionIndex s) = Undefined)"
proof (intro conjI impI)
  assume h: "fst (checkRateLimit now (''login-'' @ email d) (auth_rateLimit s)) \<and>
    loginSchema_safeParse V d = Inl issues"
  then have "formErrors (flatten issues) = []"
    by (intro loginSchema_no_formErrors [of V d]) simp
  with h show "fst (login V now d s) = Undefined"
    by (simp add: login_def step_defs first_of_def)
next
  assume h: "fst (checkRateLimit now (''register-'' @ email r) (auth_rateLimit s)) \<and>
    registerSchema_safeParse V r = Inl issues"
  then have "formErrors (flatten issues) = []"
    by (intro registerSchema_no_formErrors [of V r]) simp
  with h show "fst (register V now r s) = Undefined"
    by (simp add: register_def step_defs first_of_def)
next
  assume h: "voteSchema_safeParse V pollId optionIndex = Inl issues"
  then have "formErrors (flatten issues) = []"
    by (rule voteSchema_no_formErrors)
  with h show "fst (submitVote V now pollId optionIndex s) = Undefined"
    by (simp add: submitVote_def step_defs first_of_def)
qed

theorem field_validation_error_undefined_witness:
  "fst (checkRateLimit 0 (''login-'' @ email \<lparr>email = ''bob@example.org'', password = ''12345''\<rparr>)
      (auth_rateLimit example_server)) \<and>
   loginSchema_safeParse example_validators \<lparr>email = ''bob@example.org'', password = ''12345''\<rparr> =
     Inl [Issue [Key ''password''] ''Password must be at least 6 characters long''] \<and>
   fst (login example_validators 0 \<lparr>email = ''bob@example.org'', password = ''12345''\<rparr> example_server) = Undefined"
proof -
  let ?d = "\<lparr>email = ''bob@example.org'', password = ''12345''\<rparr>"
  have g: "fst (checkRateLimit 0 (''login-'' @ email ?d) (auth_rateLimit example_server))"
    by (rule example_auth_gate)
  have p: "loginSchema_safeParse example_validators ?d =
     Inl [Issue [Key ''password''] ''Password must be at least 6 characters long'']"
    by (simp add: loginSchema_safeParse_def check_def example_validators_def)
  have gp: "fst (checkRateLimit 0 (''login-'' @ email ?d) (auth_rateLimit example_server)) \<and>
      loginSchema_safeParse example_validators ?d =
        Inl [Issue [Key ''password''] ''Password must be at least 6 characters long'']"
    using g p by (rule conjI)
  note inst = field_validation_error_undefined [where V = example_validators and d = ?d and now = 0
      and s = example_server and issues = "[Issue [Key ''password''] ''Password must be at least 6 characters long'']",
      THEN conjunct1, rule_format, OF gp]
  from g p inst show ?thesis
    by (intro conjI)
qed

lemma id_validation_error_message:
  assumes "\<not> is_uuid V ident"
  shows "fst (getPollById V ident s) = (None, Message ''Invalid ID format'')"
    and "fst (deletePoll V now ident s) = Message ''Invalid ID format''"
    and "fst (updatePoll V now ident formData s) = Returned (Message ''Invalid ID format'')"
  using assms
  by (simp_all add: getPollById_def deletePoll_def updatePoll_def idSchema_safeParse_invalid
      flatten_def first_of_def)

end
